theory Spec2Isabelle
  imports Main "HOL-Library.Word"
begin

section \<open>Strings and paths\<close>

text \<open>
  A Go \<open>string\<close> is a sequence of bytes; \<open>len\<close> and slicing count bytes. It is
  modelled as \<open>string\<close> (a list of \<open>char\<close>, one per byte).
\<close>

text \<open>\<open>filepath.Separator\<close> on the platforms the tool is built for (Linux).\<close>

definition Separator :: char where
  "Separator = CHR ''/''"

text \<open>
  \<open>strings.Split(s, sep)\<close> for a separator of one byte: the pieces of \<open>s\<close> between
  the occurrences of the separator, so a string with \<open>n\<close> separators has \<open>n + 1\<close>
  pieces (some of them empty), and the empty string has the one piece \<open>""\<close>.
\<close>

fun strings_Split :: "string \<Rightarrow> char \<Rightarrow> string list" where
  "strings_Split [] sep = [[]]"
| "strings_Split (c # cs) sep =
     (if c = sep then [] # strings_Split cs sep
      else (case strings_Split cs sep of
              [] \<Rightarrow> [[c]]
            | p # ps \<Rightarrow> (c # p) # ps))"

text \<open>\<open>strings.Join(elems, sep)\<close>: the elements with \<open>sep\<close> between them.\<close>

fun strings_Join :: "string list \<Rightarrow> string \<Rightarrow> string" where
  "strings_Join [] sep = []"
| "strings_Join [e] sep = e"
| "strings_Join (e # e' # es) sep = e @ sep @ strings_Join (e' # es) sep"

text \<open>
  \<open>filepath.Clean\<close> (Unix), the Go standard library's lexical path cleaning, by
  path element. The library scans the path once, writing to a buffer: an empty element
  and \<open>.\<close> are dropped; \<open>..\<close> removes the element written last when there is one
  to remove (\<open>out.w > dotdot\<close>), is dropped at the root of a rooted path, and is kept
  otherwise; any other element is written; an empty result is \<open>.\<close>.
  \<open>clean_elem rooted out e\<close> is one turn of that loop on the element \<open>e\<close>, with
  \<open>out\<close> the elements written so far.
\<close>

definition clean_elem :: "bool \<Rightarrow> string list \<Rightarrow> string \<Rightarrow> string list" where
  "clean_elem rooted out e =
     (if e = [] \<or> e = ''.'' then out
      else if e = ''..'' then
        (if out \<noteq> [] \<and> last out \<noteq> ''..'' then butlast out
         else if \<not> rooted then out @ [''..'']
         else out)
      else out @ [e])"

definition filepath_Clean :: "string \<Rightarrow> string" where
  "filepath_Clean path =
     (if path = [] then ''.''
      else
        let rooted = (hd path = Separator);
            out = foldl (clean_elem rooted) [] (strings_Split path Separator);
            buf = (if rooted then [Separator] else []) @ strings_Join out [Separator]
        in if buf = [] then ''.'' else buf)"

text \<open>
  \<open>filepath.Join(elem...)\<close> (Unix): leading empty elements are ignored, the rest is
  joined with the separator and cleaned; with no non-empty element the result is \<open>""\<close>.
\<close>

definition filepath_Join :: "string list \<Rightarrow> string" where
  "filepath_Join elem =
     (case dropWhile (\<lambda>e. e = []) elem of
        [] \<Rightarrow> []
      | es \<Rightarrow> filepath_Clean (strings_Join es [Separator]))"

text \<open>\<open>shortenPath\<close> (container.go, lines 233-239).\<close>

definition shortenPath :: "string \<Rightarrow> string" where
  "shortenPath path =
     (let parts = strings_Split path Separator
      in if length parts \<le> 2 then path
         else filepath_Join [''..'', filepath_Join (drop (length parts - 2) parts)])"

section \<open>Errors and machine integers\<close>

type_synonym int64 = "64 word"

text \<open>
  A Go \<open>error\<close> value. \<open>Err msg\<close> is an error with the message \<open>msg\<close> and
  nothing wrapped (an error of a collaborator, or \<open>fmt.Errorf\<close> without \<open>%w\<close>);
  \<open>Wrapf prefix err\<close> is \<open>fmt.Errorf(prefix + "%w", err)\<close>; \<open>SkipDir\<close> and
  \<open>SkipAll\<close> are the sentinel values of \<open>path/filepath\<close>. \<open>Panic\<close> stands for
  a run-time panic (a nil dereference), which aborts the call like an error does.
\<close>

datatype error = Err string | Wrapf string error | SkipDir | SkipAll | Panic

text \<open>The \<open>Error()\<close> method: the message of an error value.\<close>

fun Error :: "error \<Rightarrow> string" where
  "Error (Err msg) = msg"
| "Error (Wrapf prefix err) = prefix @ Error err"
| "Error SkipDir = ''skip this directory''"
| "Error SkipAll = ''skip everything and stop the walk''"
| "Error Panic = ''panic''"

text \<open>\<open>fmt.Sprintf("%d", n)\<close> for an unsigned number.\<close>

fun decimal :: "nat \<Rightarrow> string" where
  "decimal n =
     (if n < 10 then [''0123456789'' ! n]
      else decimal (n div 10) @ [''0123456789'' ! (n mod 10)])"

section \<open>The file system and \<open>filepath.Walk\<close>\<close>

text \<open>
  What the operating system reports for a path, as a tree: \<open>Lstat\<close> fails
  (\<open>LstatFails msg\<close>: the path does not exist, or cannot be examined), or it gives
  the \<open>FileInfo\<close> of an entry that is not a directory (\<open>File size\<close>), of a
  directory whose entries can be listed (\<open>Dir size entries\<close>, the entries in the order
  of their names) or of one whose listing fails (\<open>ReadDirFails size msg\<close>).
  The errors of the operating system carry a message; they are never the sentinels
  \<open>SkipDir\<close> and \<open>SkipAll\<close>.
\<close>

datatype fsnode =
    File int64
  | Dir int64 "fsnode list"
  | ReadDirFails int64 string
  | LstatFails string

record FileInfo =
  IsDir :: bool
  Size :: int64

text \<open>
  \<open>filepath.WalkFunc\<close>: called with the \<open>FileInfo\<close> (or nil) and the error (or
  nil) of the entry visited. The path argument is left out: the one callback of this
  program ignores it. A callback of the source is a closure over local variables; here
  it takes their state \<open>'s\<close> and returns it updated.
\<close>

type_synonym 's WalkFunc = "FileInfo option \<Rightarrow> error option \<Rightarrow> 's \<Rightarrow> 's \<times> error option"

text \<open>
  \<open>filepath.Walk\<close> of the Go standard library. \<open>walk\<close> visits one entry:
  the callback is called on it first; a directory's entries follow, depth first, unless
  listing them failed or the callback returned an error. \<open>walk_names\<close> is the loop
  over a directory's entries: it stops at the first error, except \<open>SkipDir\<close>
  returned for a directory or for an entry whose \<open>Lstat\<close> failed.
\<close>

fun walk :: "fsnode \<Rightarrow> 's WalkFunc \<Rightarrow> 's \<Rightarrow> 's \<times> error option"
  and walk_names :: "fsnode list \<Rightarrow> 's WalkFunc \<Rightarrow> 's \<Rightarrow> 's \<times> error option" where
  "walk (File sz) walkFn s = walkFn (Some \<lparr>IsDir = False, Size = sz\<rparr>) None s"
| "walk (Dir sz names) walkFn s =
     (case walkFn (Some \<lparr>IsDir = True, Size = sz\<rparr>) None s of
        (s', Some err1) \<Rightarrow> (s', Some err1)
      | (s', None) \<Rightarrow> walk_names names walkFn s')"
| "walk (ReadDirFails sz msg) walkFn s =
     walkFn (Some \<lparr>IsDir = True, Size = sz\<rparr>) (Some (Err msg)) s"
| "walk (LstatFails msg) walkFn s = walkFn None (Some (Err msg)) s"
| "walk_names [] walkFn s = (s, None)"
| "walk_names (n # ns) walkFn s =
     (case walk n walkFn s of
        (s', None) \<Rightarrow> walk_names ns walkFn s'
      | (s', Some err) \<Rightarrow>
          (case n of
             File sz \<Rightarrow> (s', Some err)
           | _ \<Rightarrow> if err = SkipDir then walk_names ns walkFn s' else (s', Some err)))"

definition filepath_Walk :: "fsnode \<Rightarrow> 's WalkFunc \<Rightarrow> 's \<Rightarrow> 's \<times> error option" where
  "filepath_Walk root fn s =
     (case walk root fn s of
        (s', Some err) \<Rightarrow> if err = SkipDir \<or> err = SkipAll then (s', None) else (s', Some err)
      | (s', None) \<Rightarrow> (s', None))"

section \<open>The data of a checkpoint\<close>

text \<open>
  \<open>metadata.ContainerConfig\<close>, \<open>spec.Spec\<close> with \<open>spec.Mount\<close>,
  \<open>metadata.ContainerdStatus\<close> and the dump statistics of \<open>crit\<close>: the fields
  the program reads. \<open>'t\<close> is \<open>time.Time\<close>.
\<close>

record 't ContainerConfig =
  cc_Name :: string
  ID :: string
  RootfsImageName :: string
  OCIRuntime :: string
  CreatedTime :: 't

record Mount =
  Destination :: string
  Type :: string
  Source :: string

record Spec =
  Annotations :: "string \<rightharpoonup> string"
  Mounts :: "Mount list"

record ContainerdStatus =
  CreatedAt :: int64

record DumpStats =
  FreezingTime :: "32 word"
  FrozenTime :: "32 word"
  MemdumpTime :: "32 word"
  MemwriteTime :: "32 word"
  PagesScanned :: "64 word"
  PagesWritten :: "64 word"

text \<open>\<open>containerMetadata\<close> and \<open>containerInfo\<close> (container.go, lines 21-32).\<close>

record containerMetadata =
  cm_Name :: string
  Attempt :: "32 word"

record containerInfo =
  Name :: string
  IP :: string
  MAC :: string
  Created :: string
  Engine :: string

text \<open>
  Indexing a Go map of strings: the value stored under the key, and the empty string
  when the key is absent.
\<close>

definition index :: "(string \<rightharpoonup> string) \<Rightarrow> string \<Rightarrow> string" where
  "index m k = (case m k of None \<Rightarrow> [] | Some v \<Rightarrow> v)"

section \<open>The collaborators\<close>

text \<open>
  What the program calls and reads outside container.go, taken as parameters: the
  readers, the formatter and the two file names of the \<open>metadata\<close> library,
  \<open>json.Unmarshal\<close> into a \<open>containerMetadata\<close>, \<open>time.Unix\<close> and
  \<open>Time.Format\<close>, the file system, \<open>os.Open\<close>, \<open>crit.GetDumpStats\<close>, and the
  three display flags of the package. A reader of two results and an error returns a
  pair where the program looks at the two independently.
\<close>

record 't collaborators =
  ReadContainerCheckpointConfigDump :: "string \<Rightarrow> error + 't ContainerConfig"
  ReadContainerCheckpointSpecDump :: "string \<Rightarrow> error + Spec"
  ReadContainerCheckpointStatusFile :: "string \<Rightarrow> ContainerdStatus option \<times> error option"
  ByteToString :: "int64 \<Rightarrow> string"
  CheckpointDirectory :: string
  RootFsDiffTar :: string
  json_Unmarshal :: "string \<Rightarrow> error + containerMetadata"
  time_Unix :: "int64 \<Rightarrow> int64 \<Rightarrow> 't"
  time_Format :: "'t \<Rightarrow> string \<Rightarrow> string"
  filesystem :: "string \<Rightarrow> fsnode"
  os_Open :: "string \<Rightarrow> error option"
  GetDumpStats :: "string \<Rightarrow> error + DumpStats"
  showMounts :: bool
  fullPaths :: bool
  printStats :: bool

text \<open>The layout \<open>time.RFC3339\<close>.\<close>

definition RFC3339 :: string where
  "RFC3339 = ''2006-01-02T15:04:05Z07:00''"

text \<open>\<open>os.Lstat\<close> on the file system.\<close>

definition os_Lstat :: "'t collaborators \<Rightarrow> string \<Rightarrow> error + FileInfo" where
  "os_Lstat E path =
     (case filesystem E path of
        File sz \<Rightarrow> Inr \<lparr>IsDir = False, Size = sz\<rparr>
      | Dir sz names \<Rightarrow> Inr \<lparr>IsDir = True, Size = sz\<rparr>
      | ReadDirFails sz msg \<Rightarrow> Inr \<lparr>IsDir = True, Size = sz\<rparr>
      | LstatFails msg \<Rightarrow> Inl (Err msg))"

section \<open>The size of a checkpoint\<close>

text \<open>
  The callback of \<open>dirSize\<close> (container.go, lines 213-222), a closure over the
  result \<open>size\<close> (here \<open>size'\<close>). \<open>info.IsDir()\<close> on a nil \<open>info\<close> panics.
\<close>

fun dirSize_walkFn :: "int64 WalkFunc" where
  "dirSize_walkFn info (Some err) size' = (size', Some err)"
| "dirSize_walkFn (Some info) None size' =
     (if \<not> IsDir info then size' + Size info else size', None)"
| "dirSize_walkFn None None size' = (size', Some Panic)"

text \<open>
  \<open>dirSize\<close> and \<open>getCheckpointSize\<close> (container.go, lines 212-231): both
  results of the source, the size and the error.
\<close>

definition dirSize :: "'t collaborators \<Rightarrow> string \<Rightarrow> int64 \<times> error option" where
  "dirSize E path = filepath_Walk (filesystem E path) dirSize_walkFn 0"

definition getCheckpointSize :: "'t collaborators \<Rightarrow> string \<Rightarrow> int64 \<times> error option" where
  "getCheckpointSize E path = dirSize E (filepath_Join [path, CheckpointDirectory E])"

section \<open>The identity of the container\<close>

text \<open>
  \<open>getPodmanInfo\<close>, \<open>getContainerdInfo\<close> and \<open>getCRIOInfo\<close> (container.go,
  lines 34-62). A field the source does not set is the empty string.
\<close>

definition getPodmanInfo :: "'t collaborators \<Rightarrow> 't ContainerConfig \<Rightarrow> Spec \<Rightarrow> containerInfo" where
  "getPodmanInfo E containerConfig specDump =
     \<lparr>Name = cc_Name containerConfig,
      IP = [],
      MAC = [],
      Created = time_Format E (CreatedTime containerConfig) RFC3339,
      Engine = ''Podman''\<rparr>"

definition getContainerdInfo :: "'t collaborators \<Rightarrow> ContainerdStatus \<Rightarrow> Spec \<Rightarrow> containerInfo" where
  "getContainerdInfo E containerdStatus specDump =
     \<lparr>Name = index (Annotations specDump) ''io.kubernetes.cri.container-name'',
      IP = [],
      MAC = [],
      Created = time_Format E (time_Unix E 0 (CreatedAt containerdStatus)) RFC3339,
      Engine = ''containerd''\<rparr>"

definition getCRIOInfo :: "'t collaborators \<Rightarrow> 't ContainerConfig \<Rightarrow> Spec \<Rightarrow> error + containerInfo" where
  "getCRIOInfo E containerConfig specDump =
     (case json_Unmarshal E (index (Annotations specDump) ''io.kubernetes.cri-o.Metadata'') of
        Inl err \<Rightarrow> Inl (Wrapf ''failed to read io.kubernetes.cri-o.Metadata: '' err)
      | Inr cm \<Rightarrow>
          Inr \<lparr>Name = cm_Name cm,
               IP = index (Annotations specDump) ''io.kubernetes.cri-o.IP.0'',
               MAC = [],
               Created = index (Annotations specDump) ''io.kubernetes.cri-o.Created'',
               Engine = ''CRI-O''\<rparr>)"

text \<open>
  The switch on the container manager with the check of \<open>err\<close> after it
  (\<open>showContainerCheckpoint\<close>, container.go, lines 78-93): the \<open>containerInfo\<close>
  the function goes on with, or the error it returns.
\<close>

definition switch_manager ::
  "'t collaborators \<Rightarrow> string \<Rightarrow> 't ContainerConfig \<Rightarrow> Spec \<Rightarrow> error + containerInfo" where
  "switch_manager E checkpointDirectory containerConfig specDump =
     (let m = index (Annotations specDump) ''io.container.manager''
      in if m = ''libpod'' then Inr (getPodmanInfo E containerConfig specDump)
         else if m = ''cri-o'' then
           (case getCRIOInfo E containerConfig specDump of
              Inl err \<Rightarrow> Inl (Wrapf ''getting container checkpoint information failed: '' err)
            | Inr ci \<Rightarrow> Inr ci)
         else
           (case ReadContainerCheckpointStatusFile E checkpointDirectory of
              (None, _) \<Rightarrow> Inl (Err (''unknown container manager found: '' @ m))
            | (Some containerdStatus, _) \<Rightarrow> Inr (getContainerdInfo E containerdStatus specDump)))"

section \<open>The report\<close>

text \<open>
  What the program writes to standard output, in order: a text printed by \<open>fmt\<close>,
  or a table rendered by \<open>tablewriter\<close> with its header and its rows.
\<close>

datatype written = Printed string | Rendered "string list" "string list list"

text \<open>
  The header and the row of the first table (\<open>showContainerCheckpoint\<close>,
  container.go, lines 97-143), or the error of \<open>getCheckpointSize\<close> the function
  returns (lines 128-131). The numbered names are the values of \<open>header\<close> and
  \<open>row\<close> after each conditional \<open>append\<close>.
\<close>

definition report_table ::
  "'t collaborators \<Rightarrow> string \<Rightarrow> 't ContainerConfig \<Rightarrow> containerInfo \<Rightarrow>
     error + string list \<times> string list" where
  "report_table E checkpointDirectory containerConfig ci =
     (let header = [''Container'', ''Image'', ''ID'', ''Runtime'', ''Created'', ''Engine''];
          row = [Name ci,
                 RootfsImageName containerConfig,
                 (if length (ID containerConfig) > 12 then take 12 (ID containerConfig)
                  else ID containerConfig),
                 OCIRuntime containerConfig,
                 Created ci,
                 Engine ci];
          header1 = (if IP ci \<noteq> [] then header @ [''IP''] else header);
          row1 = (if IP ci \<noteq> [] then row @ [IP ci] else row);
          header2 = (if MAC ci \<noteq> [] then header1 @ [''MAC''] else header1);
          row2 = (if MAC ci \<noteq> [] then row1 @ [MAC ci] else row1)
      in case getCheckpointSize E checkpointDirectory of
           (size', Some err) \<Rightarrow> Inl err
         | (size', None) \<Rightarrow>
             (let header3 = header2 @ [''CHKPT Size''];
                  row3 = row2 @ [ByteToString E size']
              in case os_Lstat E (filepath_Join [checkpointDirectory, RootFsDiffTar E]) of
                   Inl err \<Rightarrow> Inr (header3, row3)
                 | Inr fi \<Rightarrow>
                     if Size fi \<noteq> 0 then
                       Inr (header3 @ [''Root Fs Diff Size''],
                            row3 @ [ByteToString E (Size fi)])
                     else Inr (header3, row3)))"

text \<open>The rows of the table of mounts (container.go, lines 159-170).\<close>

definition mount_row :: "'t collaborators \<Rightarrow> Mount \<Rightarrow> string list" where
  "mount_row E data' =
     [Destination data',
      Type data',
      (if fullPaths E then Source data' else shortenPath (Source data'))]"

text \<open>The row of the table of dump statistics (container.go, lines 197-204).\<close>

definition stats_row :: "DumpStats \<Rightarrow> string list" where
  "stats_row dumpStatistics =
     [decimal (unat (FreezingTime dumpStatistics)) @ '' us'',
      decimal (unat (FrozenTime dumpStatistics)) @ '' us'',
      decimal (unat (MemdumpTime dumpStatistics)) @ '' us'',
      decimal (unat (MemwriteTime dumpStatistics)) @ '' us'',
      decimal (unat (PagesScanned dumpStatistics)),
      decimal (unat (PagesWritten dumpStatistics))]"

text \<open>
  \<open>showContainerCheckpoint\<close> (container.go, lines 64-210): what it has written
  when it returns, and the error it returns (\<open>None\<close> for nil).
\<close>

definition showContainerCheckpoint ::
  "'t collaborators \<Rightarrow> string \<Rightarrow> written list \<times> error option" where
  "showContainerCheckpoint E checkpointDirectory =
     (case ReadContainerCheckpointConfigDump E checkpointDirectory of
        Inl err \<Rightarrow> ([], Some err)
      | Inr containerConfig \<Rightarrow>
     (case ReadContainerCheckpointSpecDump E checkpointDirectory of
        Inl err \<Rightarrow> ([], Some err)
      | Inr specDump \<Rightarrow>
     (case switch_manager E checkpointDirectory containerConfig specDump of
        Inl err \<Rightarrow> ([], Some err)
      | Inr ci \<Rightarrow>
     (let out1 = [Printed ([CHR 0x0A] @ ''Displaying container checkpoint data from ''
                            @ checkpointDirectory @ [CHR 0x0A, CHR 0x0A])]
      in case report_table E checkpointDirectory containerConfig ci of
           Inl err \<Rightarrow> (out1, Some err)
         | Inr (header, row) \<Rightarrow>
     (let out2 = out1 @ [Rendered header [row]];
          out3 = (if showMounts E then
                    out2 @ [Printed ([CHR 0x0A] @ ''Overview of Mounts'' @ [CHR 0x0A]),
                            Rendered [''Destination'', ''Type'', ''Source'']
                              (map (mount_row E) (Mounts specDump))]
                  else out2)
      in if printStats E then
           (case os_Open E checkpointDirectory of
              Some err \<Rightarrow> (out3, Some err)
            | None \<Rightarrow>
           (case GetDumpStats E checkpointDirectory of
              Inl err \<Rightarrow> (out3, Some (Wrapf ''unable to display checkpointing statistics: '' err))
            | Inr dumpStatistics \<Rightarrow>
                (out3 @ [Printed ([CHR 0x0A] @ ''CRIU dump statistics'' @ [CHR 0x0A]),
                         Rendered [''Freezing Time'', ''Frozen Time'', ''Memdump Time'',
                                   ''Memwrite Time'', ''Pages Scanned'', ''Pages Written'']
                           [stats_row dumpStatistics]],
                 None)))
         else (out3, None))))))"

text \<open>The first table among what has been written, with its header and its rows.\<close>

fun first_table :: "written list \<Rightarrow> (string list \<times> string list list) option" where
  "first_table [] = None"
| "first_table (Printed s # ws) = first_table ws"
| "first_table (Rendered header rows # ws) = Some (header, rows)"

section \<open>The terms of the specification\<close>

text \<open>
  The specification's size of a subtree: the sum, as a mathematical integer, of the
  sizes of the entries that are not directories; a directory's own size counts for
  nothing.
\<close>

fun subtree_size :: "fsnode \<Rightarrow> int"
  and subtree_sizes :: "fsnode list \<Rightarrow> int" where
  "subtree_size (File sz) = sint sz"
| "subtree_size (Dir sz names) = subtree_sizes names"
| "subtree_size (ReadDirFails sz msg) = 0"
| "subtree_size (LstatFails msg) = 0"
| "subtree_sizes [] = 0"
| "subtree_sizes (n # ns) = subtree_size n + subtree_sizes ns"

text \<open>
  The traversal of a subtree succeeds when every entry in it can be examined and
  every directory in it can be listed.
\<close>

fun traversable :: "fsnode \<Rightarrow> bool"
  and traversable_all :: "fsnode list \<Rightarrow> bool" where
  "traversable (File sz) = True"
| "traversable (Dir sz names) = traversable_all names"
| "traversable (ReadDirFails sz msg) = False"
| "traversable (LstatFails msg) = False"
| "traversable_all [] = True"
| "traversable_all (n # ns) = (traversable n \<and> traversable_all ns)"

text \<open>
  An ordinary path element: not empty, without a separator, and neither \<open>.\<close> nor
  \<open>..\<close>.
\<close>

definition ordinary :: "string \<Rightarrow> bool" where
  "ordinary e = (e \<noteq> [] \<and> Separator \<notin> set e \<and> e \<noteq> ''.'' \<and> e \<noteq> ''..'')"

text \<open>
  The specification's shortening, word for word: a path of more than two components
  becomes the marker \<open>..\<close> and its last two components, joined by the separator.
\<close>

definition shorten_as_specified :: "string \<Rightarrow> string" where
  "shorten_as_specified path =
     (let parts = strings_Split path Separator
      in if length parts \<le> 2 then path
         else strings_Join (''..'' # drop (length parts - 2) parts) [Separator])"

section \<open>A checkpoint to run the program on\<close>

text \<open>
  A checkpoint directory \<open>/cp\<close> of a Podman container: three files of 10, 20 and
  30 bytes in nested directories under \<open>/cp/checkpoint\<close>, and a root file system
  diff of 2048 bytes. The directories \<open>/cp2\<close> and \<open>/cp3\<close> hold a checkpoint
  of 4096 bytes, the first with no root file system diff and the second with an empty
  one. Time is a number of nanoseconds since the epoch, and the clock of this
  checkpoint knows how to write two instants; its formatter of sizes writes the
  number of bytes, and its JSON decoder knows the one metadata blob.
\<close>

definition metadata_blob :: string where
  \<open>metadata_blob = ''{"name":"web","attempt":1}''\<close>

definition broken_blob :: string where
  \<open>broken_blob = ''{"name":"we''\<close>

definition podman_config :: "int ContainerConfig" where
  "podman_config =
     \<lparr>cc_Name = ''web'',
      ID = ''0123456789abcdef'',
      RootfsImageName = ''docker.io/library/nginx:latest'',
      OCIRuntime = ''runc'',
      CreatedTime = 1700000000000000000\<rparr>"

definition podman_spec :: Spec where
  "podman_spec =
     \<lparr>Annotations = [''io.container.manager'' \<mapsto> ''libpod''],
      Mounts = [\<lparr>Destination = ''/proc'', Type = ''proc'', Source = ''proc''\<rparr>,
                \<lparr>Destination = ''/etc/hostname'', Type = ''bind'',
                 Source = ''/var/lib/containers/userdata/hostname''\<rparr>]\<rparr>"

definition checkpoint_tree :: fsnode where
  "checkpoint_tree = Dir 4096 [Dir 4096 [File 10, Dir 4096 [File 20]], File 30]"

definition podman_checkpoint :: "int collaborators" where
  "podman_checkpoint =
     \<lparr>ReadContainerCheckpointConfigDump = (\<lambda>dir. Inr podman_config),
      ReadContainerCheckpointSpecDump = (\<lambda>dir. Inr podman_spec),
      ReadContainerCheckpointStatusFile = (\<lambda>dir. (None, Some (Err ''open status.dump: no such file or directory''))),
      ByteToString = (\<lambda>b. decimal (unat b) @ '' B''),
      CheckpointDirectory = ''checkpoint'',
      RootFsDiffTar = ''rootfs-diff.tar'',
      json_Unmarshal = (\<lambda>data'.
        if data' = metadata_blob then Inr \<lparr>cm_Name = ''web'', Attempt = 1\<rparr>
        else Inl (Err ''unexpected end of JSON input'')),
      time_Unix = (\<lambda>sec nsec. sint sec * 1000000000 + sint nsec),
      time_Format = (\<lambda>t layout.
        if t = 1700000000000000000 then ''2023-11-14T22:13:20Z''
        else ''1970-01-01T00:00:00Z''),
      filesystem = (\<lambda>path.
        if path = ''/cp/checkpoint'' then checkpoint_tree
        else if path = ''/cp/rootfs-diff.tar'' then File 2048
        else if path = ''/cp2/checkpoint'' then Dir 4096 [File 4096]
        else if path = ''/cp3/checkpoint'' then Dir 4096 [File 4096]
        else if path = ''/cp3/rootfs-diff.tar'' then File 0
        else LstatFails ''no such file or directory''),
      os_Open = (\<lambda>path. None),
      GetDumpStats = (\<lambda>path. Inl (Err ''no stats-dump'')),
      showMounts = True,
      fullPaths = False,
      printStats = False\<rparr>"

text \<open>
  The same directory as a CRI-O checkpoint, as a containerd checkpoint (an unknown
  manager and a status file), and as the checkpoint of an unknown manager.
\<close>

definition crio_spec :: Spec where
  "crio_spec =
     \<lparr>Annotations = [''io.container.manager'' \<mapsto> ''cri-o'',
                     ''io.kubernetes.cri-o.Metadata'' \<mapsto> metadata_blob,
                     ''io.kubernetes.cri-o.IP.0'' \<mapsto> ''10.88.0.7'',
                     ''io.kubernetes.cri-o.Created'' \<mapsto> ''2023-11-14T22:13:20.000000000Z''],
      Mounts = []\<rparr>"

definition crio_checkpoint :: "int collaborators" where
  "crio_checkpoint =
     podman_checkpoint\<lparr>ReadContainerCheckpointSpecDump := (\<lambda>dir. Inr crio_spec)\<rparr>"

definition crio_broken_spec :: Spec where
  "crio_broken_spec =
     \<lparr>Annotations = [''io.container.manager'' \<mapsto> ''cri-o'',
                     ''io.kubernetes.cri-o.Metadata'' \<mapsto> broken_blob,
                     ''io.kubernetes.cri.container-name'' \<mapsto> ''web''],
      Mounts = []\<rparr>"

definition crio_broken_checkpoint :: "int collaborators" where
  "crio_broken_checkpoint =
     podman_checkpoint
       \<lparr>ReadContainerCheckpointSpecDump := (\<lambda>dir. Inr crio_broken_spec),
        ReadContainerCheckpointStatusFile :=
          (\<lambda>dir. (Some \<lparr>CreatedAt = 1700000000000000000\<rparr>, None))\<rparr>"

definition containerd_spec :: Spec where
  "containerd_spec =
     \<lparr>Annotations = [''io.kubernetes.cri.container-name'' \<mapsto> ''web''],
      Mounts = []\<rparr>"

definition containerd_checkpoint :: "int collaborators" where
  "containerd_checkpoint =
     podman_checkpoint
       \<lparr>ReadContainerCheckpointSpecDump := (\<lambda>dir. Inr containerd_spec),
        ReadContainerCheckpointStatusFile :=
          (\<lambda>dir. (Some \<lparr>CreatedAt = 1700000000000000000\<rparr>, Some (Err ''trailing data'')))\<rparr>"

definition unknown_spec :: Spec where
  "unknown_spec =
     \<lparr>Annotations = [''io.container.manager'' \<mapsto> ''docker''],
      Mounts = []\<rparr>"

definition unknown_checkpoint :: "int collaborators" where
  "unknown_checkpoint =
     podman_checkpoint\<lparr>ReadContainerCheckpointSpecDump := (\<lambda>dir. Inr unknown_spec)\<rparr>"

text \<open>
  The checkpoint of the manager \<open>docker\<close> with the status reader as the metadata
  library has it: like the readers of lines 69 and 73 it decodes into a record of its
  own and returns a pointer to it beside the error of reading, so for a directory
  with no status file it returns the zero record and the error, never a nil record.
\<close>

definition missing_status_checkpoint :: "int collaborators" where
  "missing_status_checkpoint =
     podman_checkpoint
       \<lparr>ReadContainerCheckpointSpecDump := (\<lambda>dir. Inr unknown_spec),
        ReadContainerCheckpointStatusFile :=
          (\<lambda>dir. (Some \<lparr>CreatedAt = 0\<rparr>,
                   Some (Err ''open status.dump: no such file or directory'')))\<rparr>"

text \<open>The Podman checkpoint of a container with another ID.\<close>

definition id_checkpoint :: "string \<Rightarrow> int collaborators" where
  "id_checkpoint anID =
     podman_checkpoint
       \<lparr>ReadContainerCheckpointConfigDump := (\<lambda>dir. Inr (podman_config\<lparr>ID := anID\<rparr>))\<rparr>"

section \<open>Splitting, joining and cleaning paths\<close>

lemma strings_Split_not_Nil: "strings_Split s sep \<noteq> []"
  by (induction s) (auto split: list.splits)

lemma strings_Split_no_sep: "sep \<notin> set a \<Longrightarrow> strings_Split a sep = [a]"
  by (induction a) auto

lemma strings_Split_append:
  "sep \<notin> set a \<Longrightarrow> strings_Split (a @ sep # r) sep = a # strings_Split r sep"
  by (induction a) (auto simp: strings_Split_not_Nil split: list.splits)

lemma strings_Split_elems: "p \<in> set (strings_Split s sep) \<Longrightarrow> sep \<notin> set p"
  by (induction s arbitrary: p) (auto split: if_splits list.splits)

lemma filepath_Clean_two:
  assumes "ordinary a" "ordinary b"
  shows "filepath_Clean (a @ Separator # b) = a @ Separator # b"
proof -
  from assms have sp: "strings_Split (a @ Separator # b) Separator = [a, b]"
    by (simp add: ordinary_def strings_Split_append strings_Split_no_sep)
  from assms have hd: "hd a \<noteq> Separator"
    by (cases a) (auto simp: ordinary_def)
  from assms hd show ?thesis
    by (simp add: filepath_Clean_def sp clean_elem_def ordinary_def)
qed

lemma filepath_Clean_dotdot_two:
  assumes "ordinary a" "ordinary b"
  shows "filepath_Clean (''..'' @ Separator # a @ Separator # b) = ''..'' @ Separator # a @ Separator # b"
proof -
  have "Separator \<notin> set ''..''" by (simp add: Separator_def)
  then have "strings_Split (''..'' @ Separator # (a @ Separator # b)) Separator
      = ''..'' # strings_Split (a @ Separator # b) Separator"
    by (rule strings_Split_append)
  with assms have sp: "strings_Split (''..'' @ Separator # a @ Separator # b) Separator = [''..'', a, b]"
    by (simp add: ordinary_def strings_Split_append strings_Split_no_sep)
  have hd: "hd (''..'' @ Separator # a @ Separator # b) \<noteq> Separator"
    by (simp add: Separator_def)
  from assms show ?thesis
    unfolding filepath_Clean_def sp Let_def
    using hd by (simp add: clean_elem_def ordinary_def)
qed

lemma filepath_Join_ordinary:
  assumes "ordinary a" "ordinary b"
  shows "filepath_Join [''..'', filepath_Join [a, b]] = ''..'' @ Separator # a @ Separator # b"
proof -
  from assms have "a \<noteq> []" by (simp add: ordinary_def)
  then have inner: "filepath_Join [a, b] = a @ Separator # b"
    using filepath_Clean_two [OF assms] by (simp add: filepath_Join_def)
  show ?thesis
    unfolding inner using \<open>a \<noteq> []\<close> filepath_Clean_dotdot_two [OF assms]
    by (simp add: filepath_Join_def)
qed

lemma shortenPath_last_two:
  assumes "strings_Split path Separator = pre @ [a, b]" and "pre \<noteq> []"
  shows "shortenPath path = filepath_Join [''..'', filepath_Join [a, b]]"
proof -
  from assms(2) have "2 < length (pre @ [a, b])" by (cases pre) simp_all
  then show ?thesis
    by (simp add: shortenPath_def assms(1))
qed

section \<open>Walking a directory\<close>

lemma walk_dirSize_traversable:
  "traversable n \<Longrightarrow>
     walk n dirSize_walkFn s = (s + word_of_int (subtree_size n), None)"
  "traversable_all ns \<Longrightarrow>
     walk_names ns dirSize_walkFn s = (s + word_of_int (subtree_sizes ns), None)"
proof (induction n and ns arbitrary: s and s rule: subtree_size_subtree_sizes.induct)
  case (1 sz)
  then show ?case by simp
next
  case (2 sz names)
  then show ?case by simp
next
  case (3 sz msg)
  then show ?case by simp
next
  case (4 msg)
  then show ?case by simp
next
  case 5
  then show ?case by simp
next
  case (6 n ns)
  then show ?case by (simp add: add.assoc)
qed

lemma walk_dirSize_fails:
  "\<not> traversable n \<Longrightarrow> \<exists>s' msg. walk n dirSize_walkFn s = (s', Some (Err msg))"
  "\<not> traversable_all ns \<Longrightarrow> \<exists>s' msg. walk_names ns dirSize_walkFn s = (s', Some (Err msg))"
proof (induction n and ns arbitrary: s and s rule: subtree_size_subtree_sizes.induct)
  case (1 sz)
  then show ?case by simp
next
  case (2 sz names)
  then show ?case by simp
next
  case (3 sz msg)
  then show ?case by simp
next
  case (4 msg)
  then show ?case by simp
next
  case 5
  then show ?case by simp
next
  case (6 n ns)
  show ?case
  proof (cases "traversable n")
    case True
    with 6 show ?thesis by (simp add: walk_dirSize_traversable)
  next
    case False
    with 6(1) obtain s' msg where "walk n dirSize_walkFn s = (s', Some (Err msg))"
      by blast
    then show ?thesis by (simp split: fsnode.splits)
  qed
qed

lemma dirSize_traversable:
  "traversable (filesystem E path) \<Longrightarrow>
     dirSize E path = (word_of_int (subtree_size (filesystem E path)), None)"
  by (simp add: dirSize_def filepath_Walk_def walk_dirSize_traversable)

lemma dirSize_fails:
  assumes "\<not> traversable (filesystem E path)"
  shows "\<exists>s' msg. dirSize E path = (s', Some (Err msg))"
proof -
  from walk_dirSize_fails(1) [OF assms] obtain s' msg
    where "walk (filesystem E path) dirSize_walkFn 0 = (s', Some (Err msg))"
    by blast
  then show ?thesis by (simp add: dirSize_def filepath_Walk_def)
qed

lemma sint_word_of_int_64:
  "- (2 ^ 63) \<le> k \<Longrightarrow> k < 2 ^ 63 \<Longrightarrow> sint (word_of_int k :: int64) = k"
  by (simp add: sint_sbintrunc' signed_take_bit_int_eq_self)

section \<open>The branches of the classifier\<close>

lemma switch_manager_libpod:
  "index (Annotations specDump) ''io.container.manager'' = ''libpod'' \<Longrightarrow>
     switch_manager E dir containerConfig specDump = Inr (getPodmanInfo E containerConfig specDump)"
  by (simp add: switch_manager_def)

lemma switch_manager_crio:
  "index (Annotations specDump) ''io.container.manager'' = ''cri-o'' \<Longrightarrow>
     switch_manager E dir containerConfig specDump =
       (case getCRIOInfo E containerConfig specDump of
          Inl err \<Rightarrow> Inl (Wrapf ''getting container checkpoint information failed: '' err)
        | Inr ci \<Rightarrow> Inr ci)"
  by (simp add: switch_manager_def)

lemma switch_manager_default:
  "index (Annotations specDump) ''io.container.manager'' \<noteq> ''libpod'' \<Longrightarrow>
   index (Annotations specDump) ''io.container.manager'' \<noteq> ''cri-o'' \<Longrightarrow>
     switch_manager E dir containerConfig specDump =
       (case fst (ReadContainerCheckpointStatusFile E dir) of
          None \<Rightarrow> Inl (Err (''unknown container manager found: ''
                    @ index (Annotations specDump) ''io.container.manager''))
        | Some containerdStatus \<Rightarrow> Inr (getContainerdInfo E containerdStatus specDump))"
  by (simp add: switch_manager_def Let_def split: prod.splits option.splits)

lemma showContainerCheckpoint_switch_error:
  "ReadContainerCheckpointConfigDump E dir = Inr containerConfig \<Longrightarrow>
   ReadContainerCheckpointSpecDump E dir = Inr specDump \<Longrightarrow>
   switch_manager E dir containerConfig specDump = Inl err \<Longrightarrow>
     showContainerCheckpoint E dir = ([], Some err)"
  by (simp add: showContainerCheckpoint_def)

lemma ignores_status_error:
  fixes E :: "'t collaborators"
  defines "E' e \<equiv> E\<lparr>ReadContainerCheckpointStatusFile :=
             (\<lambda>d. (fst (ReadContainerCheckpointStatusFile E d), e d))\<rparr>"
  shows "showContainerCheckpoint (E' e) dir = showContainerCheckpoint E dir"
proof -
  have s: "switch_manager (E' e) dir containerConfig specDump
           = switch_manager E dir containerConfig specDump"
    for containerConfig specDump
    by (simp add: E'_def switch_manager_def getPodmanInfo_def getCRIOInfo_def
        getContainerdInfo_def Let_def split: prod.splits option.splits)
  have f: "ByteToString (E' e) = ByteToString E"
    "RootFsDiffTar (E' e) = RootFsDiffTar E"
    "getCheckpointSize (E' e) = getCheckpointSize E"
    "os_Lstat (E' e) = os_Lstat E"
    "mount_row (E' e) = mount_row E"
    "ReadContainerCheckpointConfigDump (E' e) = ReadContainerCheckpointConfigDump E"
    "ReadContainerCheckpointSpecDump (E' e) = ReadContainerCheckpointSpecDump E"
    "showMounts (E' e) = showMounts E"
    "printStats (E' e) = printStats E"
    "os_Open (E' e) = os_Open E"
    "GetDumpStats (E' e) = GetDumpStats E"
    by (simp_all add: E'_def fun_eq_iff getCheckpointSize_def dirSize_def os_Lstat_def
        mount_row_def)
  have r: "report_table (E' e) dir containerConfig ci = report_table E dir containerConfig ci"
    for containerConfig ci
    unfolding report_table_def f ..
  show "showContainerCheckpoint (E' e) dir = showContainerCheckpoint E dir"
    unfolding showContainerCheckpoint_def s r f ..
qed

section \<open>The tables of the report\<close>

lemma report_table_columns:
  assumes "getCheckpointSize E dir = (size', None)"
  shows "report_table E dir containerConfig ci =
    Inr ([''Container'', ''Image'', ''ID'', ''Runtime'', ''Created'', ''Engine'']
           @ (if IP ci \<noteq> [] then [''IP''] else [])
           @ (if MAC ci \<noteq> [] then [''MAC''] else [])
           @ [''CHKPT Size'']
           @ (case os_Lstat E (filepath_Join [dir, RootFsDiffTar E]) of
                Inl err \<Rightarrow> []
              | Inr fi \<Rightarrow> if Size fi \<noteq> 0 then [''Root Fs Diff Size''] else []),
         [Name ci, RootfsImageName containerConfig,
          (if 12 < length (ID containerConfig) then take 12 (ID containerConfig)
           else ID containerConfig),
          OCIRuntime containerConfig, Created ci, Engine ci]
           @ (if IP ci \<noteq> [] then [IP ci] else [])
           @ (if MAC ci \<noteq> [] then [MAC ci] else [])
           @ [ByteToString E size']
           @ (case os_Lstat E (filepath_Join [dir, RootFsDiffTar E]) of
                Inl err \<Rightarrow> []
              | Inr fi \<Rightarrow> if Size fi \<noteq> 0 then [ByteToString E (Size fi)] else []))"
  using assms by (simp add: report_table_def Let_def split: sum.splits)

lemma report_table_Inr:
  assumes "report_table E dir containerConfig ci = Inr (header, row)"
  shows "\<exists>size'. getCheckpointSize E dir = (size', None)"
  using assms
  by (cases "getCheckpointSize E dir")
    (auto simp: report_table_def Let_def split: option.splits)

lemma report_table_length:
  assumes "report_table E dir containerConfig ci = Inr (header, row)"
  shows "length row = length header"
proof -
  from report_table_Inr [OF assms] obtain size'
    where "getCheckpointSize E dir = (size', None)" ..
  from report_table_columns [OF this, of containerConfig ci] assms
  show ?thesis by (auto split: sum.splits)
qed

lemma report_table_size_error:
  "getCheckpointSize E dir = (s', Some err) \<Longrightarrow> report_table E dir cfg ci = Inl err"
  by (simp add: report_table_def)

lemma showContainerCheckpoint_size_error:
  assumes "getCheckpointSize E dir = (s', Some err)"
  shows "snd (showContainerCheckpoint E dir) \<noteq> None
    \<and> (\<forall>header rows. Rendered header rows \<notin> set (fst (showContainerCheckpoint E dir)))"
  using assms
  by (simp add: showContainerCheckpoint_def report_table_def split: sum.splits)

lemma mount_row_length: "length (mount_row E data') = 3"
  by (simp add: mount_row_def)

lemma stats_row_length: "length (stats_row dumpStatistics) = 6"
  by (simp add: stats_row_def)

lemma showContainerCheckpoint_tables:
  assumes "Rendered header rows \<in> set (fst (showContainerCheckpoint E dir))"
    and "row \<in> set rows"
  shows "length row = length header"
  using assms
  by (auto simp: showContainerCheckpoint_def Let_def mount_row_length stats_row_length
      split: sum.splits prod.splits if_splits option.splits
      dest: report_table_length)

lemma showContainerCheckpoint_first_table:
  assumes "ReadContainerCheckpointConfigDump E dir = Inr containerConfig"
    and "ReadContainerCheckpointSpecDump E dir = Inr specDump"
    and "switch_manager E dir containerConfig specDump = Inr ci"
  shows "first_table (fst (showContainerCheckpoint E dir)) =
           (case report_table E dir containerConfig ci of
              Inl err \<Rightarrow> None
            | Inr (header, row) \<Rightarrow> Some (header, [row]))"
  using assms
  by (simp add: showContainerCheckpoint_def Let_def split: sum.splits prod.splits option.splits)

lemma first_table_Some:
  assumes "first_table (fst (showContainerCheckpoint E dir)) = Some (header, rows)"
  shows "\<exists>containerConfig specDump ci row.
           ReadContainerCheckpointConfigDump E dir = Inr containerConfig
           \<and> ReadContainerCheckpointSpecDump E dir = Inr specDump
           \<and> switch_manager E dir containerConfig specDump = Inr ci
           \<and> report_table E dir containerConfig ci = Inr (header, row)
           \<and> rows = [row]"
proof (cases "ReadContainerCheckpointConfigDump E dir")
  case (Inl err)
  with assms show ?thesis by (simp add: showContainerCheckpoint_def)
next
  case c: (Inr containerConfig)
  show ?thesis
  proof (cases "ReadContainerCheckpointSpecDump E dir")
    case (Inl err)
    with assms c show ?thesis by (simp add: showContainerCheckpoint_def)
  next
    case s: (Inr specDump)
    show ?thesis
    proof (cases "switch_manager E dir containerConfig specDump")
      case (Inl err)
      with assms c s show ?thesis by (simp add: showContainerCheckpoint_def)
    next
      case (Inr ci)
      from showContainerCheckpoint_first_table [OF c s Inr] assms
      have "\<exists>row. report_table E dir containerConfig ci = Inr (header, row) \<and> rows = [row]"
        by (auto split: sum.splits)
      with c s Inr show ?thesis by blast
    qed
  qed
qed

lemma showContainerCheckpoint_error_after_table:
  assumes "ReadContainerCheckpointConfigDump E dir = Inr containerConfig"
    and "ReadContainerCheckpointSpecDump E dir = Inr specDump"
    and "switch_manager E dir containerConfig specDump = Inr ci"
    and "report_table E dir containerConfig ci = Inr (header, row)"
  shows "snd (showContainerCheckpoint E dir) =
           (if printStats E then
              (case os_Open E dir of
                 Some err \<Rightarrow> Some err
               | None \<Rightarrow>
                   (case GetDumpStats E dir of
                      Inl err \<Rightarrow> Some (Wrapf ''unable to display checkpointing statistics: '' err)
                    | Inr dumpStatistics \<Rightarrow> None))
            else None)"
  using assms
  by (simp add: showContainerCheckpoint_def Let_def split: option.splits sum.splits)

section \<open>The program on the checkpoints\<close>

lemma Join_cp_checkpoint: "filepath_Join [''/cp'', ''checkpoint''] = ''/cp/checkpoint''"
  by (simp add: filepath_Join_def filepath_Clean_def clean_elem_def Separator_def)

lemma Join_cp_rootfs: "filepath_Join [''/cp'', ''rootfs-diff.tar''] = ''/cp/rootfs-diff.tar''"
  by (simp add: filepath_Join_def filepath_Clean_def clean_elem_def Separator_def)

lemma Join_cp2_checkpoint: "filepath_Join [''/cp2'', ''checkpoint''] = ''/cp2/checkpoint''"
  by (simp add: filepath_Join_def filepath_Clean_def clean_elem_def Separator_def)

lemma Join_cp2_rootfs: "filepath_Join [''/cp2'', ''rootfs-diff.tar''] = ''/cp2/rootfs-diff.tar''"
  by (simp add: filepath_Join_def filepath_Clean_def clean_elem_def Separator_def)

lemma Join_cp3_checkpoint: "filepath_Join [''/cp3'', ''checkpoint''] = ''/cp3/checkpoint''"
  by (simp add: filepath_Join_def filepath_Clean_def clean_elem_def Separator_def)

lemma Join_cp3_rootfs: "filepath_Join [''/cp3'', ''rootfs-diff.tar''] = ''/cp3/rootfs-diff.tar''"
  by (simp add: filepath_Join_def filepath_Clean_def clean_elem_def Separator_def)

lemma Join_nowhere_checkpoint: "filepath_Join [''/nowhere'', ''checkpoint''] = ''/nowhere/checkpoint''"
  by (simp add: filepath_Join_def filepath_Clean_def clean_elem_def Separator_def)

lemma podman_manager: "index (Annotations podman_spec) ''io.container.manager'' = ''libpod''"
  by (simp add: podman_spec_def index_def)

lemma crio_manager: "index (Annotations crio_spec) ''io.container.manager'' = ''cri-o''"
  by (simp add: crio_spec_def index_def)

lemma crio_broken_manager:
  "index (Annotations crio_broken_spec) ''io.container.manager'' = ''cri-o''"
  by (simp add: crio_broken_spec_def index_def)

lemma containerd_manager: "index (Annotations containerd_spec) ''io.container.manager'' = []"
  by (simp add: containerd_spec_def index_def)

lemma unknown_manager: "index (Annotations unknown_spec) ''io.container.manager'' = ''docker''"
  by (simp add: unknown_spec_def index_def)

lemma podman_checkpoint_size: "getCheckpointSize podman_checkpoint ''/cp'' = (60, None)"
  by (simp add: getCheckpointSize_def dirSize_def filepath_Walk_def podman_checkpoint_def
      Join_cp_checkpoint checkpoint_tree_def)

lemma podman_checkpoint_diff:
  "os_Lstat podman_checkpoint (filepath_Join [''/cp'', RootFsDiffTar podman_checkpoint])
     = Inr \<lparr>IsDir = False, Size = 2048\<rparr>"
  by (simp add: os_Lstat_def podman_checkpoint_def Join_cp_rootfs)

lemma podman_identity:
  "getPodmanInfo podman_checkpoint podman_config podman_spec
     = \<lparr>Name = ''web'', IP = [], MAC = [], Created = ''2023-11-14T22:13:20Z'',
        Engine = ''Podman''\<rparr>"
  by (simp add: getPodmanInfo_def podman_checkpoint_def podman_config_def)

lemma podman_report_table:
  "report_table podman_checkpoint ''/cp'' (podman_config\<lparr>ID := anID\<rparr>)
     \<lparr>Name = ''web'', IP = anIP, MAC = aMAC, Created = ''2023-11-14T22:13:20Z'',
      Engine = ''Podman''\<rparr>
   = Inr ([''Container'', ''Image'', ''ID'', ''Runtime'', ''Created'', ''Engine'']
            @ (if anIP \<noteq> [] then [''IP''] else [])
            @ (if aMAC \<noteq> [] then [''MAC''] else [])
            @ [''CHKPT Size'', ''Root Fs Diff Size''],
          [''web'', ''docker.io/library/nginx:latest'',
           (if 12 < length anID then take 12 anID else anID),
           ''runc'', ''2023-11-14T22:13:20Z'', ''Podman'']
            @ (if anIP \<noteq> [] then [anIP] else [])
            @ (if aMAC \<noteq> [] then [aMAC] else [])
            @ [''60 B'', ''2048 B''])"
proof -
  have b: "ByteToString podman_checkpoint 60 = ''60 B''"
    "ByteToString podman_checkpoint 2048 = ''2048 B''"
    by (simp_all add: podman_checkpoint_def)
  show ?thesis
    by (simp add: report_table_columns [OF podman_checkpoint_size] podman_checkpoint_diff b
        podman_config_def)
qed

lemma podman_loads:
  "ReadContainerCheckpointConfigDump podman_checkpoint dir = Inr podman_config"
  "ReadContainerCheckpointSpecDump podman_checkpoint dir = Inr podman_spec"
  by (simp_all add: podman_checkpoint_def)

lemma podman_switch:
  "switch_manager podman_checkpoint dir podman_config podman_spec
     = Inr (getPodmanInfo podman_checkpoint podman_config podman_spec)"
  by (rule switch_manager_libpod [OF podman_manager])

lemma id_first_table:
  "first_table (fst (showContainerCheckpoint (id_checkpoint anID) ''/cp'')) =
     Some ([''Container'', ''Image'', ''ID'', ''Runtime'', ''Created'', ''Engine'',
            ''CHKPT Size'', ''Root Fs Diff Size''],
           [[''web'', ''docker.io/library/nginx:latest'',
             (if 12 < length anID then take 12 anID else anID), ''runc'',
             ''2023-11-14T22:13:20Z'', ''Podman'', ''60 B'', ''2048 B'']])"
proof -
  let ?E = "id_checkpoint anID"
  let ?cfg = "podman_config\<lparr>ID := anID\<rparr>"
  have c: "ReadContainerCheckpointConfigDump ?E ''/cp'' = Inr ?cfg"
    and s: "ReadContainerCheckpointSpecDump ?E ''/cp'' = Inr podman_spec"
    by (simp_all add: id_checkpoint_def podman_checkpoint_def)
  have i: "getPodmanInfo ?E ?cfg podman_spec =
      \<lparr>Name = ''web'', IP = [], MAC = [], Created = ''2023-11-14T22:13:20Z'',
       Engine = ''Podman''\<rparr>"
    by (simp add: getPodmanInfo_def id_checkpoint_def podman_checkpoint_def podman_config_def)
  have w: "switch_manager ?E ''/cp'' ?cfg podman_spec = Inr (getPodmanInfo ?E ?cfg podman_spec)"
    by (rule switch_manager_libpod [OF podman_manager])
  have f: "ByteToString ?E = ByteToString podman_checkpoint"
    "RootFsDiffTar ?E = RootFsDiffTar podman_checkpoint"
    "getCheckpointSize ?E = getCheckpointSize podman_checkpoint"
    "os_Lstat ?E = os_Lstat podman_checkpoint"
    by (simp_all add: fun_eq_iff getCheckpointSize_def dirSize_def os_Lstat_def
        id_checkpoint_def)
  have r: "report_table ?E ''/cp'' ?cfg x = report_table podman_checkpoint ''/cp'' ?cfg x" for x
    unfolding report_table_def f ..
  show ?thesis
    unfolding showContainerCheckpoint_first_table [OF c s w] i r
    by (simp add: podman_report_table)
qed

lemma podman_mount_rows:
  "map (mount_row podman_checkpoint) (Mounts podman_spec)
     = [[''/proc'', ''proc'', ''proc''],
        [''/etc/hostname'', ''bind'', ''../userdata/hostname'']]"
proof -
  have f: "fullPaths podman_checkpoint = False"
    by (simp add: podman_checkpoint_def)
  have s1: "shortenPath ''proc'' = ''proc''"
    by (simp add: shortenPath_def Separator_def)
  have s2: "shortenPath ''/var/lib/containers/userdata/hostname'' = ''../userdata/hostname''"
    by (simp add: shortenPath_def filepath_Join_def filepath_Clean_def clean_elem_def
        Separator_def)
  show ?thesis
    by (simp add: podman_spec_def mount_row_def f s1 s2)
qed

lemma podman_show:
  "showContainerCheckpoint podman_checkpoint ''/cp'' =
     ([Printed ([CHR 0x0A] @ ''Displaying container checkpoint data from /cp''
                 @ [CHR 0x0A, CHR 0x0A]),
       Rendered [''Container'', ''Image'', ''ID'', ''Runtime'', ''Created'', ''Engine'',
                 ''CHKPT Size'', ''Root Fs Diff Size'']
         [[''web'', ''docker.io/library/nginx:latest'', ''0123456789ab'', ''runc'',
           ''2023-11-14T22:13:20Z'', ''Podman'', ''60 B'', ''2048 B'']],
       Printed ([CHR 0x0A] @ ''Overview of Mounts'' @ [CHR 0x0A]),
       Rendered [''Destination'', ''Type'', ''Source'']
         [[''/proc'', ''proc'', ''proc''],
          [''/etc/hostname'', ''bind'', ''../userdata/hostname'']]],
      None)"
proof -
  have c: "ReadContainerCheckpointConfigDump podman_checkpoint ''/cp'' = Inr podman_config"
    and s: "ReadContainerCheckpointSpecDump podman_checkpoint ''/cp'' = Inr podman_spec"
    and f: "showMounts podman_checkpoint = True" "printStats podman_checkpoint = False"
    by (simp_all add: podman_checkpoint_def)
  have i: "podman_config\<lparr>ID := ''0123456789abcdef''\<rparr> = podman_config"
    by (simp add: podman_config_def)
  have t: "report_table podman_checkpoint ''/cp'' podman_config
      (getPodmanInfo podman_checkpoint podman_config podman_spec)
    = Inr ([''Container'', ''Image'', ''ID'', ''Runtime'', ''Created'', ''Engine'',
            ''CHKPT Size'', ''Root Fs Diff Size''],
           [''web'', ''docker.io/library/nginx:latest'', ''0123456789ab'', ''runc'',
            ''2023-11-14T22:13:20Z'', ''Podman'', ''60 B'', ''2048 B''])"
    using podman_report_table [of "''0123456789abcdef''" "[]" "[]"]
    by (simp add: i podman_identity)
  show ?thesis
    by (simp add: showContainerCheckpoint_def c s f t podman_mount_rows
        switch_manager_libpod [OF podman_manager])
qed

section \<open>The claims\<close>

text \<open>
  Claim C1. The identity the classifier returns: for the manager \<open>libpod\<close>, the
  name of the config, its creation time formatted as RFC 3339, and the engine Podman;
  for \<open>cri-o\<close>, when the metadata annotation decodes, the decoded name, the
  annotation of the first IP address, the annotation of the creation time as it is,
  and the engine CRI-O; for any other manager, when a containerd status record is
  there, the annotation of the container's name, the record's nanoseconds since the
  epoch as a time formatted as RFC 3339, and the engine containerd.
\<close>

theorem C1_classifier_identity:
  "(index (Annotations specDump) ''io.container.manager'' = ''libpod'' \<longrightarrow>
      switch_manager E dir containerConfig specDump =
        Inr \<lparr>Name = cc_Name containerConfig, IP = [], MAC = [],
             Created = time_Format E (CreatedTime containerConfig) RFC3339,
             Engine = ''Podman''\<rparr>)
   \<and> (\<forall>cm. index (Annotations specDump) ''io.container.manager'' = ''cri-o''
         \<and> json_Unmarshal E (index (Annotations specDump) ''io.kubernetes.cri-o.Metadata'')
             = Inr cm \<longrightarrow>
      switch_manager E dir containerConfig specDump =
        Inr \<lparr>Name = cm_Name cm,
             IP = index (Annotations specDump) ''io.kubernetes.cri-o.IP.0'', MAC = [],
             Created = index (Annotations specDump) ''io.kubernetes.cri-o.Created'',
             Engine = ''CRI-O''\<rparr>)
   \<and> (\<forall>containerdStatus.
         index (Annotations specDump) ''io.container.manager'' \<noteq> ''libpod''
         \<and> index (Annotations specDump) ''io.container.manager'' \<noteq> ''cri-o''
         \<and> fst (ReadContainerCheckpointStatusFile E dir) = Some containerdStatus \<longrightarrow>
      switch_manager E dir containerConfig specDump =
        Inr \<lparr>Name = index (Annotations specDump) ''io.kubernetes.cri.container-name'',
             IP = [], MAC = [],
             Created = time_Format E (time_Unix E 0 (CreatedAt containerdStatus)) RFC3339,
             Engine = ''containerd''\<rparr>)"
proof (intro conjI allI impI)
  assume "index (Annotations specDump) ''io.container.manager'' = ''libpod''"
  then show "switch_manager E dir containerConfig specDump =
        Inr \<lparr>Name = cc_Name containerConfig, IP = [], MAC = [],
             Created = time_Format E (CreatedTime containerConfig) RFC3339,
             Engine = ''Podman''\<rparr>"
    by (simp add: switch_manager_libpod getPodmanInfo_def)
next
  fix cm
  assume "index (Annotations specDump) ''io.container.manager'' = ''cri-o''
         \<and> json_Unmarshal E (index (Annotations specDump) ''io.kubernetes.cri-o.Metadata'')
             = Inr cm"
  then show "switch_manager E dir containerConfig specDump =
        Inr \<lparr>Name = cm_Name cm,
             IP = index (Annotations specDump) ''io.kubernetes.cri-o.IP.0'', MAC = [],
             Created = index (Annotations specDump) ''io.kubernetes.cri-o.Created'',
             Engine = ''CRI-O''\<rparr>"
    by (simp add: switch_manager_crio getCRIOInfo_def)
next
  fix containerdStatus
  assume "index (Annotations specDump) ''io.container.manager'' \<noteq> ''libpod''
         \<and> index (Annotations specDump) ''io.container.manager'' \<noteq> ''cri-o''
         \<and> fst (ReadContainerCheckpointStatusFile E dir) = Some containerdStatus"
  then show "switch_manager E dir containerConfig specDump =
        Inr \<lparr>Name = index (Annotations specDump) ''io.kubernetes.cri.container-name'',
             IP = [], MAC = [],
             Created = time_Format E (time_Unix E 0 (CreatedAt containerdStatus)) RFC3339,
             Engine = ''containerd''\<rparr>"
    by (simp add: switch_manager_default getContainerdInfo_def)
qed

text \<open>The theorem on the three checkpoints of \<open>/cp\<close>, one for each engine.\<close>

theorem C1_classifier_identity_witness:
  "switch_manager podman_checkpoint ''/cp'' podman_config podman_spec =
     Inr \<lparr>Name = ''web'', IP = [], MAC = [], Created = ''2023-11-14T22:13:20Z'',
          Engine = ''Podman''\<rparr>
   \<and> switch_manager crio_checkpoint ''/cp'' podman_config crio_spec =
     Inr \<lparr>Name = ''web'', IP = ''10.88.0.7'', MAC = [],
          Created = ''2023-11-14T22:13:20.000000000Z'', Engine = ''CRI-O''\<rparr>
   \<and> switch_manager containerd_checkpoint ''/cp'' podman_config containerd_spec =
     Inr \<lparr>Name = ''web'', IP = [], MAC = [], Created = ''2023-11-14T22:13:20Z'',
          Engine = ''containerd''\<rparr>"
proof -
  have p: "switch_manager podman_checkpoint ''/cp'' podman_config podman_spec =
     Inr \<lparr>Name = ''web'', IP = [], MAC = [], Created = ''2023-11-14T22:13:20Z'',
          Engine = ''Podman''\<rparr>"
    using C1_classifier_identity [of podman_spec podman_checkpoint "''/cp''" podman_config]
    by (simp add: podman_manager podman_checkpoint_def podman_config_def)
  have u: "json_Unmarshal crio_checkpoint
      (index (Annotations crio_spec) ''io.kubernetes.cri-o.Metadata'')
      = Inr \<lparr>cm_Name = ''web'', Attempt = 1\<rparr>"
    by (simp add: crio_checkpoint_def podman_checkpoint_def crio_spec_def index_def)
  have "switch_manager crio_checkpoint ''/cp'' podman_config crio_spec =
     Inr \<lparr>Name = cm_Name \<lparr>cm_Name = ''web'', Attempt = 1\<rparr>,
          IP = index (Annotations crio_spec) ''io.kubernetes.cri-o.IP.0'', MAC = [],
          Created = index (Annotations crio_spec) ''io.kubernetes.cri-o.Created'',
          Engine = ''CRI-O''\<rparr>"
    using C1_classifier_identity [of crio_spec crio_checkpoint "''/cp''" podman_config]
      crio_manager u by blast
  then have c: "switch_manager crio_checkpoint ''/cp'' podman_config crio_spec =
     Inr \<lparr>Name = ''web'', IP = ''10.88.0.7'', MAC = [],
          Created = ''2023-11-14T22:13:20.000000000Z'', Engine = ''CRI-O''\<rparr>"
    by (simp add: crio_spec_def index_def)
  have st: "fst (ReadContainerCheckpointStatusFile containerd_checkpoint ''/cp'')
      = Some \<lparr>CreatedAt = 1700000000000000000\<rparr>"
    by (simp add: containerd_checkpoint_def)
  have "switch_manager containerd_checkpoint ''/cp'' podman_config containerd_spec =
     Inr \<lparr>Name = index (Annotations containerd_spec) ''io.kubernetes.cri.container-name'',
          IP = [], MAC = [],
          Created = time_Format containerd_checkpoint
            (time_Unix containerd_checkpoint 0 (CreatedAt \<lparr>CreatedAt = 1700000000000000000\<rparr>))
            RFC3339,
          Engine = ''containerd''\<rparr>"
    using C1_classifier_identity [of containerd_spec containerd_checkpoint "''/cp''" podman_config]
      st by (simp add: containerd_manager)
  then have d: "switch_manager containerd_checkpoint ''/cp'' podman_config containerd_spec =
     Inr \<lparr>Name = ''web'', IP = [], MAC = [], Created = ''2023-11-14T22:13:20Z'',
          Engine = ''containerd''\<rparr>"
    by (simp add: containerd_spec_def index_def containerd_checkpoint_def podman_checkpoint_def)
  from p c d show ?thesis by blast
qed

text \<open>
  Claim C2 fails on the code. With no status file the reader returns the zero record
  and the error of reading; line 84 drops the error and line 85 finds a record, so
  the checkpoint of the manager \<open>docker\<close> is taken for one of containerd: the
  classifier returns an identity with no name and the creation time of the epoch,
  \<open>showContainerCheckpoint\<close> renders it and returns nil, and the error of the
  unknown container manager is not returned.
\<close>

theorem C2_unknown_manager_taken_for_containerd:
  "index (Annotations unknown_spec) ''io.container.manager'' = ''docker''
   \<and> ReadContainerCheckpointStatusFile missing_status_checkpoint ''/cp''
       = (Some \<lparr>CreatedAt = 0\<rparr>, Some (Err ''open status.dump: no such file or directory''))
   \<and> switch_manager missing_status_checkpoint ''/cp'' podman_config unknown_spec
       = Inr \<lparr>Name = [], IP = [], MAC = [], Created = ''1970-01-01T00:00:00Z'',
              Engine = ''containerd''\<rparr>
   \<and> first_table (fst (showContainerCheckpoint missing_status_checkpoint ''/cp''))
       = Some ([''Container'', ''Image'', ''ID'', ''Runtime'', ''Created'', ''Engine'',
                ''CHKPT Size'', ''Root Fs Diff Size''],
               [[[], ''docker.io/library/nginx:latest'', ''0123456789ab'', ''runc'',
                 ''1970-01-01T00:00:00Z'', ''containerd'', ''60 B'', ''2048 B'']])
   \<and> snd (showContainerCheckpoint missing_status_checkpoint ''/cp'') = None
   \<and> snd (showContainerCheckpoint missing_status_checkpoint ''/cp'')
       \<noteq> Some (Err ''unknown container manager found: docker'')"
proof -
  let ?E = "missing_status_checkpoint"
  let ?ci = "\<lparr>Name = [], IP = [], MAC = [], Created = ''1970-01-01T00:00:00Z'',
              Engine = ''containerd''\<rparr>"
  have r: "ReadContainerCheckpointStatusFile ?E ''/cp''
       = (Some \<lparr>CreatedAt = 0\<rparr>, Some (Err ''open status.dump: no such file or directory''))"
    by (simp add: missing_status_checkpoint_def)
  have c: "ReadContainerCheckpointConfigDump ?E ''/cp'' = Inr podman_config"
    and s: "ReadContainerCheckpointSpecDump ?E ''/cp'' = Inr unknown_spec"
    and p: "\<not> printStats ?E"
    by (simp_all add: missing_status_checkpoint_def podman_checkpoint_def)
  have g: "getContainerdInfo ?E \<lparr>CreatedAt = 0\<rparr> unknown_spec = ?ci"
    by (simp add: getContainerdInfo_def missing_status_checkpoint_def podman_checkpoint_def
        unknown_spec_def index_def)
  have w: "switch_manager ?E ''/cp'' podman_config unknown_spec = Inr ?ci"
    using switch_manager_default [of unknown_spec ?E "''/cp''" podman_config]
    by (simp add: unknown_manager r g)
  have f: "ByteToString ?E = ByteToString podman_checkpoint"
    "RootFsDiffTar ?E = RootFsDiffTar podman_checkpoint"
    "getCheckpointSize ?E = getCheckpointSize podman_checkpoint"
    "os_Lstat ?E = os_Lstat podman_checkpoint"
    by (simp_all add: fun_eq_iff getCheckpointSize_def dirSize_def os_Lstat_def
        missing_status_checkpoint_def)
  have i: "podman_config\<lparr>ID := ''0123456789abcdef''\<rparr> = podman_config"
    by (simp add: podman_config_def)
  have "report_table ?E ''/cp'' podman_config ?ci
      = report_table podman_checkpoint ''/cp'' podman_config ?ci"
    unfolding report_table_def f ..
  also have "\<dots> = Inr ([''Container'', ''Image'', ''ID'', ''Runtime'', ''Created'', ''Engine'',
                ''CHKPT Size'', ''Root Fs Diff Size''],
               [[], ''docker.io/library/nginx:latest'', ''0123456789ab'', ''runc'',
                 ''1970-01-01T00:00:00Z'', ''containerd'', ''60 B'', ''2048 B''])"
  proof -
    have b: "ByteToString podman_checkpoint 60 = ''60 B''"
      "ByteToString podman_checkpoint 2048 = ''2048 B''"
      by (simp_all add: podman_checkpoint_def)
    show ?thesis
      by (simp add: report_table_columns [OF podman_checkpoint_size] podman_checkpoint_diff b
          podman_config_def)
  qed
  finally have t: "report_table ?E ''/cp'' podman_config ?ci
      = Inr ([''Container'', ''Image'', ''ID'', ''Runtime'', ''Created'', ''Engine'',
                ''CHKPT Size'', ''Root Fs Diff Size''],
               [[], ''docker.io/library/nginx:latest'', ''0123456789ab'', ''runc'',
                 ''1970-01-01T00:00:00Z'', ''containerd'', ''60 B'', ''2048 B''])" .
  have ft: "first_table (fst (showContainerCheckpoint ?E ''/cp''))
       = Some ([''Container'', ''Image'', ''ID'', ''Runtime'', ''Created'', ''Engine'',
                ''CHKPT Size'', ''Root Fs Diff Size''],
               [[[], ''docker.io/library/nginx:latest'', ''0123456789ab'', ''runc'',
                 ''1970-01-01T00:00:00Z'', ''containerd'', ''60 B'', ''2048 B'']])"
    by (simp add: showContainerCheckpoint_first_table [OF c s w] t)
  have e: "snd (showContainerCheckpoint ?E ''/cp'') = None"
    using showContainerCheckpoint_error_after_table [OF c s w t] p by simp
  from unknown_manager r w ft e show ?thesis by simp
qed

text \<open>
  Claim C3. When the CRI-O metadata annotation does not decode, \<open>getCRIOInfo\<close>
  returns no identity but the error \<open>failed to read io.kubernetes.cri-o.Metadata: \<close>
  wrapping the error of the decoder, whatever else the checkpoint holds; for the
  manager \<open>cri-o\<close> the classifier returns that error wrapped once more, and
  \<open>showContainerCheckpoint\<close>, when the config and the spec load, writes nothing and
  returns it.
\<close>

theorem C3_crio_metadata_error:
  assumes "json_Unmarshal E (index (Annotations specDump) ''io.kubernetes.cri-o.Metadata'')
             = Inl decodeErr"
  shows "getCRIOInfo E containerConfig specDump
           = Inl (Wrapf ''failed to read io.kubernetes.cri-o.Metadata: '' decodeErr)
         \<and> Error (Wrapf ''failed to read io.kubernetes.cri-o.Metadata: '' decodeErr)
           = ''failed to read io.kubernetes.cri-o.Metadata: '' @ Error decodeErr
         \<and> (index (Annotations specDump) ''io.container.manager'' = ''cri-o'' \<longrightarrow>
              switch_manager E dir containerConfig specDump
                = Inl (Wrapf ''getting container checkpoint information failed: ''
                        (Wrapf ''failed to read io.kubernetes.cri-o.Metadata: '' decodeErr))
              \<and> (ReadContainerCheckpointConfigDump E dir = Inr containerConfig
                   \<and> ReadContainerCheckpointSpecDump E dir = Inr specDump \<longrightarrow>
                 showContainerCheckpoint E dir
                   = ([], Some (Wrapf ''getting container checkpoint information failed: ''
                        (Wrapf ''failed to read io.kubernetes.cri-o.Metadata: '' decodeErr)))))"
proof -
  from assms have g: "getCRIOInfo E containerConfig specDump
      = Inl (Wrapf ''failed to read io.kubernetes.cri-o.Metadata: '' decodeErr)"
    by (simp add: getCRIOInfo_def)
  have s: "switch_manager E dir containerConfig specDump
      = Inl (Wrapf ''getting container checkpoint information failed: ''
              (Wrapf ''failed to read io.kubernetes.cri-o.Metadata: '' decodeErr))"
    if "index (Annotations specDump) ''io.container.manager'' = ''cri-o''"
    using that g by (simp add: switch_manager_crio)
  show ?thesis
    using g s showContainerCheckpoint_switch_error [of E dir containerConfig specDump]
    by simp
qed

text \<open>
  The theorem on the CRI-O checkpoint whose metadata annotation is cut short; it has
  a containerd status record and the annotation of a container name, which are not
  used.
\<close>

theorem C3_crio_metadata_error_witness:
  "getCRIOInfo crio_broken_checkpoint podman_config crio_broken_spec
     = Inl (Wrapf ''failed to read io.kubernetes.cri-o.Metadata: ''
             (Err ''unexpected end of JSON input''))
   \<and> showContainerCheckpoint crio_broken_checkpoint ''/cp''
     = ([], Some (Wrapf ''getting container checkpoint information failed: ''
                   (Wrapf ''failed to read io.kubernetes.cri-o.Metadata: ''
                     (Err ''unexpected end of JSON input''))))"
proof -
  have u: "json_Unmarshal crio_broken_checkpoint
      (index (Annotations crio_broken_spec) ''io.kubernetes.cri-o.Metadata'')
      = Inl (Err ''unexpected end of JSON input'')"
    by (simp add: crio_broken_checkpoint_def podman_checkpoint_def crio_broken_spec_def index_def
        metadata_blob_def broken_blob_def)
  have c: "ReadContainerCheckpointConfigDump crio_broken_checkpoint ''/cp'' = Inr podman_config"
    by (simp add: crio_broken_checkpoint_def podman_checkpoint_def)
  have s: "ReadContainerCheckpointSpecDump crio_broken_checkpoint ''/cp'' = Inr crio_broken_spec"
    by (simp add: crio_broken_checkpoint_def)
  from C3_crio_metadata_error [OF u, of podman_config "''/cp''"] crio_broken_manager c s
  show ?thesis by simp
qed

text \<open>
  Claim C4. When every entry under the path can be examined and every directory listed,
  \<open>dirSize\<close> returns no error and the sum of the sizes of the entries that are not
  directories, in the 64-bit arithmetic of the result: it is the mathematical sum when
  that fits an \<open>int64\<close>. When the traversal fails anywhere, \<open>dirSize\<close> returns an
  error. \<open>getCheckpointSize\<close> is \<open>dirSize\<close> on the checkpoint's subdirectory, and
  when it returns an error the report fails and no table is rendered.
\<close>

theorem C4_dirSize:
  "(traversable (filesystem E path) \<longrightarrow>
      dirSize E path = (word_of_int (subtree_size (filesystem E path)), None)
      \<and> (- (2 ^ 63) \<le> subtree_size (filesystem E path)
           \<and> subtree_size (filesystem E path) < 2 ^ 63 \<longrightarrow>
         sint (fst (dirSize E path)) = subtree_size (filesystem E path)))
   \<and> (\<not> traversable (filesystem E path) \<longrightarrow> (\<exists>err. snd (dirSize E path) = Some err))
   \<and> getCheckpointSize E dir = dirSize E (filepath_Join [dir, CheckpointDirectory E])
   \<and> (\<forall>err. snd (getCheckpointSize E dir) = Some err \<longrightarrow>
         report_table E dir cfg ci = Inl err
         \<and> snd (showContainerCheckpoint E dir) \<noteq> None
         \<and> (\<forall>header rows. Rendered header rows \<notin> set (fst (showContainerCheckpoint E dir))))"
proof (intro conjI impI allI)
  assume t: "traversable (filesystem E path)"
  then show "dirSize E path = (word_of_int (subtree_size (filesystem E path)), None)"
    by (rule dirSize_traversable)
  assume "- (2 ^ 63) \<le> subtree_size (filesystem E path)
           \<and> subtree_size (filesystem E path) < 2 ^ 63"
  then show "sint (fst (dirSize E path)) = subtree_size (filesystem E path)"
    by (simp add: dirSize_traversable [OF t] sint_word_of_int_64)
next
  assume "\<not> traversable (filesystem E path)"
  from dirSize_fails [OF this] show "\<exists>err. snd (dirSize E path) = Some err"
    by auto
next
  show "getCheckpointSize E dir = dirSize E (filepath_Join [dir, CheckpointDirectory E])"
    by (simp add: getCheckpointSize_def)
next
  fix err
  assume "snd (getCheckpointSize E dir) = Some err"
  then have e: "getCheckpointSize E dir = (fst (getCheckpointSize E dir), Some err)"
    by (simp add: prod_eq_iff)
  from report_table_size_error [OF e] show "report_table E dir cfg ci = Inl err" .
  from showContainerCheckpoint_size_error [OF e]
  show "snd (showContainerCheckpoint E dir) \<noteq> None" by simp
  fix header rows
  from showContainerCheckpoint_size_error [OF e]
  show "Rendered header rows \<notin> set (fst (showContainerCheckpoint E dir))" by simp
qed

text \<open>
  The theorem on the checkpoint \<open>/cp\<close>, whose files of 10, 20 and 30 bytes give
  60, and on a directory that does not exist.
\<close>

theorem C4_dirSize_witness:
  "dirSize podman_checkpoint ''/cp/checkpoint'' = (60, None)
   \<and> sint (fst (dirSize podman_checkpoint ''/cp/checkpoint'')) = 60
   \<and> getCheckpointSize podman_checkpoint ''/cp'' = (60, None)
   \<and> (\<exists>err. snd (dirSize podman_checkpoint ''/nowhere/checkpoint'') = Some err)
   \<and> (\<exists>err. report_table podman_checkpoint ''/nowhere'' podman_config
                (getPodmanInfo podman_checkpoint podman_config podman_spec) = Inl err)
   \<and> snd (showContainerCheckpoint podman_checkpoint ''/nowhere'') \<noteq> None"
proof -
  have fs: "filesystem podman_checkpoint ''/cp/checkpoint'' = checkpoint_tree"
    by (simp add: podman_checkpoint_def)
  have t: "traversable (filesystem podman_checkpoint ''/cp/checkpoint'')"
    by (simp add: fs checkpoint_tree_def)
  have sz: "subtree_size (filesystem podman_checkpoint ''/cp/checkpoint'') = 60"
    by (simp add: fs checkpoint_tree_def)
  have cd: "CheckpointDirectory podman_checkpoint = ''checkpoint''"
    by (simp add: podman_checkpoint_def)
  have nt: "\<not> traversable (filesystem podman_checkpoint ''/nowhere/checkpoint'')"
    by (simp add: podman_checkpoint_def)
  note ok = C4_dirSize [of podman_checkpoint "''/cp/checkpoint''" "''/cp''"]
  note bad = C4_dirSize [of podman_checkpoint "''/nowhere/checkpoint''" "''/nowhere''" podman_config
      "getPodmanInfo podman_checkpoint podman_config podman_spec"]
  from ok t sz have d: "dirSize podman_checkpoint ''/cp/checkpoint'' = (60, None)"
    by simp
  from ok t sz have s: "sint (fst (dirSize podman_checkpoint ''/cp/checkpoint'')) = 60"
    by simp
  from ok d have g: "getCheckpointSize podman_checkpoint ''/cp'' = (60, None)"
    by (simp add: cd Join_cp_checkpoint)
  from bad nt obtain err where e: "snd (dirSize podman_checkpoint ''/nowhere/checkpoint'') = Some err"
    by blast
  from bad have "getCheckpointSize podman_checkpoint ''/nowhere''
      = dirSize podman_checkpoint ''/nowhere/checkpoint''"
    by (simp add: cd Join_nowhere_checkpoint)
  with e have ge: "snd (getCheckpointSize podman_checkpoint ''/nowhere'') = Some err"
    by simp
  with bad have r: "report_table podman_checkpoint ''/nowhere'' podman_config
        (getPodmanInfo podman_checkpoint podman_config podman_spec) = Inl err"
    and sh: "snd (showContainerCheckpoint podman_checkpoint ''/nowhere'') \<noteq> None"
    by blast+
  from d s g e r sh show ?thesis by blast
qed

text \<open>
  Claim C5, as amended. \<open>shortenPath\<close> returns the path unchanged when splitting
  it on the separator gives at most two components. Otherwise it returns
  \<open>filepath.Join("..", filepath.Join(a, b))\<close> for the last two components \<open>a\<close>
  and \<open>b\<close>, which is \<open>../a/b\<close> when neither of them is empty, \<open>.\<close> or
  \<open>..\<close>. A leading or trailing separator adds an empty component to the split.
\<close>

theorem C5_shortenPath:
  "(length (strings_Split path Separator) \<le> 2 \<longrightarrow> shortenPath path = path)
   \<and> (\<forall>pre a b. strings_Split path Separator = pre @ [a, b] \<and> pre \<noteq> [] \<longrightarrow>
          shortenPath path = filepath_Join [''..'', filepath_Join [a, b]]
          \<and> (a \<noteq> [] \<and> a \<noteq> ''.'' \<and> a \<noteq> ''..'' \<and> b \<noteq> [] \<and> b \<noteq> ''.'' \<and> b \<noteq> ''..'' \<longrightarrow>
               shortenPath path = ''../'' @ a @ ''/'' @ b))"
proof (intro conjI allI impI)
  assume "length (strings_Split path Separator) \<le> 2"
  then show "shortenPath path = path" by (simp add: shortenPath_def)
next
  fix pre a b
  assume h: "strings_Split path Separator = pre @ [a, b] \<and> pre \<noteq> []"
  then show j: "shortenPath path = filepath_Join [''..'', filepath_Join [a, b]]"
    by (simp add: shortenPath_last_two)
  assume o: "a \<noteq> [] \<and> a \<noteq> ''.'' \<and> a \<noteq> ''..'' \<and> b \<noteq> [] \<and> b \<noteq> ''.'' \<and> b \<noteq> ''..''"
  from h have "a \<in> set (strings_Split path Separator)" "b \<in> set (strings_Split path Separator)"
    by simp_all
  then have "Separator \<notin> set a" "Separator \<notin> set b"
    by (simp_all add: strings_Split_elems)
  with o have "ordinary a" "ordinary b"
    by (simp_all add: ordinary_def)
  then have "filepath_Join [''..'', filepath_Join [a, b]] = ''..'' @ Separator # a @ Separator # b"
    by (rule filepath_Join_ordinary)
  with j show "shortenPath path = ''../'' @ a @ ''/'' @ b"
    by (simp add: Separator_def)
qed

text \<open>
  The theorem on four paths: \<open>a/b\<close> has two components and is returned unchanged;
  \<open>/a/b/c/d\<close> and \<open>/a/b\<close> have more than two, and their last two are ordinary
  names; the last component of \<open>/a/b/\<close> is empty, and the join drops it.
\<close>

theorem C5_shortenPath_witness:
  "shortenPath ''a/b'' = ''a/b''
   \<and> shortenPath ''/a/b/c/d'' = ''../c/d''
   \<and> shortenPath ''/a/b'' = ''../a/b''
   \<and> shortenPath ''/a/b/'' = ''../b''"
proof -
  have s1: "length (strings_Split ''a/b'' Separator) \<le> 2"
    by (simp add: Separator_def)
  have s2: "strings_Split ''/a/b/c/d'' Separator = [[], ''a'', ''b''] @ [''c'', ''d'']
      \<and> [[], ''a'', ''b''] \<noteq> []"
    by (simp add: Separator_def)
  have s3: "strings_Split ''/a/b'' Separator = [[]] @ [''a'', ''b''] \<and> [[]] \<noteq> []"
    by (simp add: Separator_def)
  have s4: "strings_Split ''/a/b/'' Separator = [[], ''a''] @ [''b'', []] \<and> [[], ''a''] \<noteq> []"
    by (simp add: Separator_def)
  have n: "''a'' \<noteq> [] \<and> ''a'' \<noteq> ''.'' \<and> ''a'' \<noteq> ''..'' \<and> ''b'' \<noteq> [] \<and> ''b'' \<noteq> ''.'' \<and> ''b'' \<noteq> ''..''"
    "''c'' \<noteq> [] \<and> ''c'' \<noteq> ''.'' \<and> ''c'' \<noteq> ''..'' \<and> ''d'' \<noteq> [] \<and> ''d'' \<noteq> ''.'' \<and> ''d'' \<noteq> ''..''"
    by simp_all
  have j: "filepath_Join [''..'', filepath_Join [''b'', []]] = ''../b''"
    by (simp add: filepath_Join_def filepath_Clean_def clean_elem_def Separator_def)
  from s1 C5_shortenPath [of "''a/b''"]
  have r1: "shortenPath ''a/b'' = ''a/b''" by blast
  from s2 n(2) C5_shortenPath [of "''/a/b/c/d''"]
  have "shortenPath ''/a/b/c/d'' = ''../'' @ ''c'' @ ''/'' @ ''d''" by blast
  then have r2: "shortenPath ''/a/b/c/d'' = ''../c/d''" by simp
  from s3 n(1) C5_shortenPath [of "''/a/b''"]
  have "shortenPath ''/a/b'' = ''../'' @ ''a'' @ ''/'' @ ''b''" by blast
  then have r3: "shortenPath ''/a/b'' = ''../a/b''" by simp
  from s4 C5_shortenPath [of "''/a/b/''"]
  have "shortenPath ''/a/b/'' = filepath_Join [''..'', filepath_Join [''b'', []]]" by blast
  with j have r4: "shortenPath ''/a/b/'' = ''../b''" by simp
  from r1 r2 r3 r4 show ?thesis by blast
qed

text \<open>
  Claim C5 as stated fails. \<open>/a/b\<close> splits into three components (the first one
  empty), so it is not returned unmodified but shortened to \<open>../a/b\<close>. And the
  components are joined by \<open>filepath.Join\<close>, which drops an empty component:
  \<open>/a/b/\<close> gives \<open>../b\<close>, where the marker and the last two components
  (\<open>b\<close> and the empty one) joined by the separator are \<open>../b/\<close>.
\<close>

theorem C5_counterexample:
  "length (strings_Split ''/a/b'' Separator) = 3
   \<and> shortenPath ''/a/b'' = ''../a/b''
   \<and> shortenPath ''/a/b'' \<noteq> ''/a/b''
   \<and> shortenPath ''/a/b/'' = ''../b''
   \<and> shorten_as_specified ''/a/b/'' = ''../b/''"
  by (simp add: shortenPath_def shorten_as_specified_def filepath_Join_def
      filepath_Clean_def clean_elem_def Separator_def)

text \<open>
  Claim C6. In the first table \<open>showContainerCheckpoint\<close> renders, the third column
  is the ID, and its cell in the one row is the first 12 bytes of the container's ID
  when the ID is longer than 12, and the whole ID otherwise.
\<close>

theorem C6_id_cell:
  assumes "first_table (fst (showContainerCheckpoint E dir)) = Some (header, rows)"
    and "ReadContainerCheckpointConfigDump E dir = Inr containerConfig"
  shows "\<exists>row. rows = [row]
           \<and> header ! 2 = ''ID''
           \<and> row ! 2 = (if 12 < length (ID containerConfig) then take 12 (ID containerConfig)
                        else ID containerConfig)"
proof -
  from first_table_Some [OF assms(1)] assms(2) obtain ci row
    where t: "report_table E dir containerConfig ci = Inr (header, row)" and r: "rows = [row]"
    by auto
  from report_table_Inr [OF t] obtain size'
    where "getCheckpointSize E dir = (size', None)" ..
  from report_table_columns [OF this, of containerConfig ci] t r
  show ?thesis by auto
qed

text \<open>
  The theorem on the checkpoint \<open>/cp\<close> of a container with an ID of 16 bytes, and
  of one with an ID of 8 bytes.
\<close>

theorem C6_id_cell_witness:
  "(\<exists>header row.
      first_table (fst (showContainerCheckpoint (id_checkpoint ''0123456789abcdef'') ''/cp''))
        = Some (header, [row])
      \<and> header ! 2 = ''ID'' \<and> row ! 2 = ''0123456789ab'')
   \<and> (\<exists>header row.
      first_table (fst (showContainerCheckpoint (id_checkpoint ''01234567'') ''/cp''))
        = Some (header, [row])
      \<and> header ! 2 = ''ID'' \<and> row ! 2 = ''01234567'')"
proof -
  have c: "ReadContainerCheckpointConfigDump (id_checkpoint anID) ''/cp''
      = Inr (podman_config\<lparr>ID := anID\<rparr>)" for anID
    by (simp add: id_checkpoint_def)
  from C6_id_cell [OF id_first_table c, of "''0123456789abcdef''"]
    id_first_table [of "''0123456789abcdef''"]
  have l: "\<exists>header row.
      first_table (fst (showContainerCheckpoint (id_checkpoint ''0123456789abcdef'') ''/cp''))
        = Some (header, [row])
      \<and> header ! 2 = ''ID'' \<and> row ! 2 = ''0123456789ab''"
    by simp
  from C6_id_cell [OF id_first_table c, of "''01234567''"]
    id_first_table [of "''01234567''"]
  have s: "\<exists>header row.
      first_table (fst (showContainerCheckpoint (id_checkpoint ''01234567'') ''/cp''))
        = Some (header, [row])
      \<and> header ! 2 = ''ID'' \<and> row ! 2 = ''01234567''"
    by simp
  from l s show ?thesis by blast
qed

text \<open>
  Claim C7. The header and the row that lines 97-143 build from an identity are the
  first table \<open>showContainerCheckpoint\<close> renders
  (\<open>showContainerCheckpoint_first_table\<close>). For every identity, the header starts
  with the six base columns; the column \<open>IP\<close> is in it exactly when the identity's
  \<open>IP\<close> is not empty, and the column \<open>MAC\<close> exactly when its \<open>MAC\<close> is not
  empty. They follow the base columns in that order, before \<open>CHKPT Size\<close>, and the
  row has a cell for each of them and none for an empty field.
\<close>

theorem C7_optional_columns:
  assumes "report_table E dir containerConfig ci = Inr (header, row)"
  shows "(''IP'' \<in> set header \<longleftrightarrow> IP ci \<noteq> [])
         \<and> (''MAC'' \<in> set header \<longleftrightarrow> MAC ci \<noteq> [])
         \<and> (\<exists>rest cells.
               header = [''Container'', ''Image'', ''ID'', ''Runtime'', ''Created'', ''Engine'']
                          @ (if IP ci \<noteq> [] then [''IP''] else [])
                          @ (if MAC ci \<noteq> [] then [''MAC''] else [])
                          @ ''CHKPT Size'' # rest
               \<and> row = take 6 row
                          @ (if IP ci \<noteq> [] then [IP ci] else [])
                          @ (if MAC ci \<noteq> [] then [MAC ci] else [])
                          @ cells
               \<and> length (take 6 row) = 6
               \<and> length cells = Suc (length rest))"
proof -
  from report_table_Inr [OF assms] obtain size'
    where "getCheckpointSize E dir = (size', None)" ..
  note c = report_table_columns [OF this, of containerConfig ci]
  let ?rest = "case os_Lstat E (filepath_Join [dir, RootFsDiffTar E]) of
                 Inl err \<Rightarrow> []
               | Inr fi \<Rightarrow> if Size fi \<noteq> 0 then [''Root Fs Diff Size''] else []"
  let ?cells = "ByteToString E size' #
     (case os_Lstat E (filepath_Join [dir, RootFsDiffTar E]) of
        Inl err \<Rightarrow> []
      | Inr fi \<Rightarrow> if Size fi \<noteq> 0 then [ByteToString E (Size fi)] else [])"
  from c assms have h: "header = [''Container'', ''Image'', ''ID'', ''Runtime'', ''Created'', ''Engine'']
                          @ (if IP ci \<noteq> [] then [''IP''] else [])
                          @ (if MAC ci \<noteq> [] then [''MAC''] else [])
                          @ ''CHKPT Size'' # ?rest"
    by simp
  from c assms have r: "row = take 6 row
                          @ (if IP ci \<noteq> [] then [IP ci] else [])
                          @ (if MAC ci \<noteq> [] then [MAC ci] else [])
                          @ ?cells"
    and l: "length (take 6 row) = 6"
    by auto
  have n: "length ?cells = Suc (length ?rest)"
    by (simp split: sum.splits)
  have ip: "''IP'' \<in> set header \<longleftrightarrow> IP ci \<noteq> []"
    by (subst h) (simp split: sum.splits)
  have mac: "''MAC'' \<in> set header \<longleftrightarrow> MAC ci \<noteq> []"
    by (subst h) (simp split: sum.splits)
  from h r l n ip mac show ?thesis by blast
qed

text \<open>
  The theorem on the checkpoint \<open>/cp\<close> with an identity that has neither an IP
  address nor a MAC address, and with one that has an IP address only.
\<close>

theorem C7_optional_columns_witness:
  "(\<exists>header row. report_table podman_checkpoint ''/cp'' (podman_config\<lparr>ID := ''0123''\<rparr>)
        \<lparr>Name = ''web'', IP = [], MAC = [], Created = ''2023-11-14T22:13:20Z'',
         Engine = ''Podman''\<rparr> = Inr (header, row)
      \<and> ''IP'' \<notin> set header \<and> ''MAC'' \<notin> set header)
   \<and> (\<exists>header row. report_table podman_checkpoint ''/cp'' (podman_config\<lparr>ID := ''0123''\<rparr>)
        \<lparr>Name = ''web'', IP = ''10.88.0.7'', MAC = [], Created = ''2023-11-14T22:13:20Z'',
         Engine = ''Podman''\<rparr> = Inr (header, row)
      \<and> ''IP'' \<in> set header \<and> ''MAC'' \<notin> set header)"
proof -
  note none = podman_report_table [of "''0123''" "[]" "[]"]
  note ip = podman_report_table [of "''0123''" "''10.88.0.7''" "[]"]
  from C7_optional_columns [OF none] none
  have n: "\<exists>header row. report_table podman_checkpoint ''/cp'' (podman_config\<lparr>ID := ''0123''\<rparr>)
        \<lparr>Name = ''web'', IP = [], MAC = [], Created = ''2023-11-14T22:13:20Z'',
         Engine = ''Podman''\<rparr> = Inr (header, row)
      \<and> ''IP'' \<notin> set header \<and> ''MAC'' \<notin> set header"
    by simp
  from C7_optional_columns [OF ip] ip
  have i: "\<exists>header row. report_table podman_checkpoint ''/cp'' (podman_config\<lparr>ID := ''0123''\<rparr>)
        \<lparr>Name = ''web'', IP = ''10.88.0.7'', MAC = [], Created = ''2023-11-14T22:13:20Z'',
         Engine = ''Podman''\<rparr> = Inr (header, row)
      \<and> ''IP'' \<in> set header \<and> ''MAC'' \<notin> set header"
    by simp
  from n i show ?thesis by blast
qed

text \<open>
  Claim C8. When the config and the spec load, the container is classified and the
  size of the checkpoint is computed, \<open>showContainerCheckpoint\<close> renders the first
  table whatever \<open>Lstat\<close> says of the root file system diff. The column
  \<open>Root Fs Diff Size\<close> is in its header exactly when \<open>Lstat\<close> of the diff in the
  checkpoint directory succeeds with a size that is not zero; it is then the last
  column, and the last cell of the row is that size as \<open>ByteToString\<close> writes it.
  A diff that is missing or empty produces no error: the function returns nil, unless
  the statistics are asked for and opening the directory or reading them fails, and
  then it returns that error.
\<close>

theorem C8_rootfs_diff_column:
  assumes "ReadContainerCheckpointConfigDump E dir = Inr containerConfig"
    and "ReadContainerCheckpointSpecDump E dir = Inr specDump"
    and "switch_manager E dir containerConfig specDump = Inr ci"
    and "snd (getCheckpointSize E dir) = None"
  shows "(\<exists>header row.
           first_table (fst (showContainerCheckpoint E dir)) = Some (header, [row])
           \<and> length row = length header
           \<and> (''Root Fs Diff Size'' \<in> set header \<longleftrightarrow>
                (\<exists>fi. os_Lstat E (filepath_Join [dir, RootFsDiffTar E]) = Inr fi
                       \<and> Size fi \<noteq> 0))
           \<and> (\<forall>fi. os_Lstat E (filepath_Join [dir, RootFsDiffTar E]) = Inr fi
                    \<and> Size fi \<noteq> 0 \<longrightarrow>
                  last header = ''Root Fs Diff Size''
                  \<and> last row = ByteToString E (Size fi)))
         \<and> (\<not> printStats E \<longrightarrow> snd (showContainerCheckpoint E dir) = None)
         \<and> snd (showContainerCheckpoint E dir) =
             (if printStats E then
                (case os_Open E dir of
                   Some err \<Rightarrow> Some err
                 | None \<Rightarrow>
                     (case GetDumpStats E dir of
                        Inl err \<Rightarrow>
                          Some (Wrapf ''unable to display checkpointing statistics: '' err)
                      | Inr dumpStatistics \<Rightarrow> None))
              else None)"
proof -
  from assms(4) have "getCheckpointSize E dir = (fst (getCheckpointSize E dir), None)"
    by (simp add: prod_eq_iff)
  note c = report_table_columns [OF this, of containerConfig ci]
  have t: "\<exists>header row.
           first_table (fst (showContainerCheckpoint E dir)) = Some (header, [row])
           \<and> length row = length header
           \<and> (''Root Fs Diff Size'' \<in> set header \<longleftrightarrow>
                (\<exists>fi. os_Lstat E (filepath_Join [dir, RootFsDiffTar E]) = Inr fi
                       \<and> Size fi \<noteq> 0))
           \<and> (\<forall>fi. os_Lstat E (filepath_Join [dir, RootFsDiffTar E]) = Inr fi
                    \<and> Size fi \<noteq> 0 \<longrightarrow>
                  last header = ''Root Fs Diff Size''
                  \<and> last row = ByteToString E (Size fi))"
    unfolding showContainerCheckpoint_first_table [OF assms(1-3)] c
    by (auto split: sum.splits)
  note e = showContainerCheckpoint_error_after_table [OF assms(1-3) c]
  from e have n: "\<not> printStats E \<longrightarrow> snd (showContainerCheckpoint E dir) = None"
    by simp
  from t n e show ?thesis by blast
qed

text \<open>
  The theorem on the three checkpoint directories: a diff of 2048 bytes, no diff,
  and an empty diff. No statistics are asked for, and the function returns nil on
  each.
\<close>

theorem C8_rootfs_diff_column_witness:
  "(\<exists>header row.
      first_table (fst (showContainerCheckpoint podman_checkpoint ''/cp'')) = Some (header, [row])
      \<and> ''Root Fs Diff Size'' \<in> set header \<and> last row = ''2048 B'')
   \<and> snd (showContainerCheckpoint podman_checkpoint ''/cp'') = None
   \<and> (\<exists>header row.
      first_table (fst (showContainerCheckpoint podman_checkpoint ''/cp2'')) = Some (header, [row])
      \<and> ''Root Fs Diff Size'' \<notin> set header)
   \<and> snd (showContainerCheckpoint podman_checkpoint ''/cp2'') = None
   \<and> (\<exists>header row.
      first_table (fst (showContainerCheckpoint podman_checkpoint ''/cp3'')) = Some (header, [row])
      \<and> ''Root Fs Diff Size'' \<notin> set header)
   \<and> snd (showContainerCheckpoint podman_checkpoint ''/cp3'') = None"
proof -
  have s1: "snd (getCheckpointSize podman_checkpoint ''/cp'') = None"
    by (simp add: podman_checkpoint_size)
  have s2: "snd (getCheckpointSize podman_checkpoint ''/cp2'') = None"
    by (simp add: getCheckpointSize_def dirSize_def filepath_Walk_def podman_checkpoint_def
        Join_cp2_checkpoint)
  have s3: "snd (getCheckpointSize podman_checkpoint ''/cp3'') = None"
    by (simp add: getCheckpointSize_def dirSize_def filepath_Walk_def podman_checkpoint_def
        Join_cp3_checkpoint)
  have l2: "os_Lstat podman_checkpoint (filepath_Join [''/cp2'', RootFsDiffTar podman_checkpoint])
      = Inl (Err ''no such file or directory'')"
    by (simp add: os_Lstat_def podman_checkpoint_def Join_cp2_rootfs)
  have l3: "os_Lstat podman_checkpoint (filepath_Join [''/cp3'', RootFsDiffTar podman_checkpoint])
      = Inr \<lparr>IsDir = False, Size = 0\<rparr>"
    by (simp add: os_Lstat_def podman_checkpoint_def Join_cp3_rootfs)
  have b: "ByteToString podman_checkpoint 2048 = ''2048 B''"
    by (simp add: podman_checkpoint_def)
  have p: "\<not> printStats podman_checkpoint"
    by (simp add: podman_checkpoint_def)
  note c1 = C8_rootfs_diff_column [OF podman_loads podman_switch s1]
  note c2 = C8_rootfs_diff_column [OF podman_loads podman_switch s2]
  note c3 = C8_rootfs_diff_column [OF podman_loads podman_switch s3]
  from c1 have r1: "\<exists>header row.
      first_table (fst (showContainerCheckpoint podman_checkpoint ''/cp'')) = Some (header, [row])
      \<and> ''Root Fs Diff Size'' \<in> set header \<and> last row = ''2048 B''"
    by (auto simp: podman_checkpoint_diff b)
  from c2 have r2: "\<exists>header row.
      first_table (fst (showContainerCheckpoint podman_checkpoint ''/cp2'')) = Some (header, [row])
      \<and> ''Root Fs Diff Size'' \<notin> set header"
    by (auto simp: l2)
  from c3 have r3: "\<exists>header row.
      first_table (fst (showContainerCheckpoint podman_checkpoint ''/cp3'')) = Some (header, [row])
      \<and> ''Root Fs Diff Size'' \<notin> set header"
    by (auto simp: l3)
  from c1 p have e1: "snd (showContainerCheckpoint podman_checkpoint ''/cp'') = None"
    by blast
  from c2 p have e2: "snd (showContainerCheckpoint podman_checkpoint ''/cp2'') = None"
    by blast
  from c3 p have e3: "snd (showContainerCheckpoint podman_checkpoint ''/cp3'') = None"
    by blast
  from r1 e1 r2 e2 r3 e3 show ?thesis by blast
qed

text \<open>
  Claim C9. In every table \<open>showContainerCheckpoint\<close> renders, each row has as many
  cells as the header has labels; the header and the row that lines 97-143 build
  have the same length whenever they are built.
\<close>

theorem C9_row_matches_header:
  "(\<forall>header rows row.
      Rendered header rows \<in> set (fst (showContainerCheckpoint E dir)) \<and> row \<in> set rows \<longrightarrow>
      length row = length header)
   \<and> (\<forall>containerConfig ci header row.
        report_table E dir containerConfig ci = Inr (header, row) \<longrightarrow>
        length row = length header)"
  using showContainerCheckpoint_tables report_table_length by blast

text \<open>
  The theorem on the Podman checkpoint \<open>/cp\<close>: the first table has eight columns
  and a row of eight cells, the table of mounts three columns and rows of three cells.
\<close>

theorem C9_row_matches_header_witness:
  "Rendered [''Container'', ''Image'', ''ID'', ''Runtime'', ''Created'', ''Engine'',
             ''CHKPT Size'', ''Root Fs Diff Size'']
     [[''web'', ''docker.io/library/nginx:latest'', ''0123456789ab'', ''runc'',
       ''2023-11-14T22:13:20Z'', ''Podman'', ''60 B'', ''2048 B'']]
     \<in> set (fst (showContainerCheckpoint podman_checkpoint ''/cp''))
   \<and> length [''web'', ''docker.io/library/nginx:latest'', ''0123456789ab'', ''runc'',
             ''2023-11-14T22:13:20Z'', ''Podman'', ''60 B'', ''2048 B'']
     = length [''Container'', ''Image'', ''ID'', ''Runtime'', ''Created'', ''Engine'',
               ''CHKPT Size'', ''Root Fs Diff Size'']
   \<and> Rendered [''Destination'', ''Type'', ''Source'']
       [[''/proc'', ''proc'', ''proc''],
        [''/etc/hostname'', ''bind'', ''../userdata/hostname'']]
     \<in> set (fst (showContainerCheckpoint podman_checkpoint ''/cp''))
   \<and> length [''/etc/hostname'', ''bind'', ''../userdata/hostname'']
     = length [''Destination'', ''Type'', ''Source'']"
proof -
  let ?h = "[''Container'', ''Image'', ''ID'', ''Runtime'', ''Created'', ''Engine'',
             ''CHKPT Size'', ''Root Fs Diff Size'']"
  let ?r = "[''web'', ''docker.io/library/nginx:latest'', ''0123456789ab'', ''runc'',
       ''2023-11-14T22:13:20Z'', ''Podman'', ''60 B'', ''2048 B'']"
  let ?mh = "[''Destination'', ''Type'', ''Source'']"
  let ?m1 = "[''/proc'', ''proc'', ''proc'']"
  let ?m2 = "[''/etc/hostname'', ''bind'', ''../userdata/hostname'']"
  have m1: "Rendered ?h [?r] \<in> set (fst (showContainerCheckpoint podman_checkpoint ''/cp''))"
    by (simp add: podman_show)
  have m2: "Rendered ?mh [?m1, ?m2]
      \<in> set (fst (showContainerCheckpoint podman_checkpoint ''/cp''))"
    by (simp add: podman_show)
  have r1: "?r \<in> set [?r]" and r2: "?m2 \<in> set [?m1, ?m2]"
    by simp_all
  note c = C9_row_matches_header [of podman_checkpoint "''/cp''"]
  from c m1 r1 have l1: "length ?r = length ?h" by blast
  from c m2 r2 have l2: "length ?m2 = length ?mh" by blast
  from m1 l1 m2 l2 show ?thesis by blast
qed

text \<open>
  Claim C10. For a manager that is neither \<open>libpod\<close> nor \<open>cri-o\<close>, the
  classifier looks only at the status record the reader returns: with a record it
  returns the containerd identity, without one the error of the unknown manager,
  whatever error the reader returned with it. The error of the reader reaches the
  caller nowhere: with any other error in its place \<open>showContainerCheckpoint\<close>
  writes and returns the same.
\<close>

theorem C10_status_error_discarded:
  "(index (Annotations specDump) ''io.container.manager'' \<noteq> ''libpod''
      \<and> index (Annotations specDump) ''io.container.manager'' \<noteq> ''cri-o''
      \<and> ReadContainerCheckpointStatusFile E dir = (status, readErr) \<longrightarrow>
    switch_manager E dir containerConfig specDump =
      (case status of
         None \<Rightarrow> Inl (Err (''unknown container manager found: ''
                   @ index (Annotations specDump) ''io.container.manager''))
       | Some containerdStatus \<Rightarrow> Inr (getContainerdInfo E containerdStatus specDump)))
   \<and> showContainerCheckpoint
        (E\<lparr>ReadContainerCheckpointStatusFile :=
             (\<lambda>d. (fst (ReadContainerCheckpointStatusFile E d), otherErr d))\<rparr>) dir
      = showContainerCheckpoint E dir"
proof (intro conjI impI)
  assume "index (Annotations specDump) ''io.container.manager'' \<noteq> ''libpod''
      \<and> index (Annotations specDump) ''io.container.manager'' \<noteq> ''cri-o''
      \<and> ReadContainerCheckpointStatusFile E dir = (status, readErr)"
  then show "switch_manager E dir containerConfig specDump =
      (case status of
         None \<Rightarrow> Inl (Err (''unknown container manager found: ''
                   @ index (Annotations specDump) ''io.container.manager''))
       | Some containerdStatus \<Rightarrow> Inr (getContainerdInfo E containerdStatus specDump))"
    by (simp add: switch_manager_default)
next
  show "showContainerCheckpoint
        (E\<lparr>ReadContainerCheckpointStatusFile :=
             (\<lambda>d. (fst (ReadContainerCheckpointStatusFile E d), otherErr d))\<rparr>) dir
      = showContainerCheckpoint E dir"
    by (rule ignores_status_error)
qed

text \<open>
  The theorem on the containerd checkpoint, whose reader returns a status record
  together with an error, and on the checkpoint of the manager \<open>docker\<close>, whose
  reader returns an error and no record.
\<close>

theorem C10_status_error_discarded_witness:
  "ReadContainerCheckpointStatusFile containerd_checkpoint ''/cp''
     = (Some \<lparr>CreatedAt = 1700000000000000000\<rparr>, Some (Err ''trailing data''))
   \<and> switch_manager containerd_checkpoint ''/cp'' podman_config containerd_spec
     = Inr (getContainerdInfo containerd_checkpoint \<lparr>CreatedAt = 1700000000000000000\<rparr>
             containerd_spec)
   \<and> ReadContainerCheckpointStatusFile unknown_checkpoint ''/cp''
     = (None, Some (Err ''open status.dump: no such file or directory''))
   \<and> switch_manager unknown_checkpoint ''/cp'' podman_config unknown_spec
     = Inl (Err ''unknown container manager found: docker'')"
proof -
  have r1: "ReadContainerCheckpointStatusFile containerd_checkpoint ''/cp''
     = (Some \<lparr>CreatedAt = 1700000000000000000\<rparr>, Some (Err ''trailing data''))"
    by (simp add: containerd_checkpoint_def)
  have r2: "ReadContainerCheckpointStatusFile unknown_checkpoint ''/cp''
     = (None, Some (Err ''open status.dump: no such file or directory''))"
    by (simp add: unknown_checkpoint_def podman_checkpoint_def)
  from r1 C10_status_error_discarded [of containerd_spec containerd_checkpoint "''/cp''"
      "Some \<lparr>CreatedAt = 1700000000000000000\<rparr>" "Some (Err ''trailing data'')" podman_config]
  have s1: "switch_manager containerd_checkpoint ''/cp'' podman_config containerd_spec
     = Inr (getContainerdInfo containerd_checkpoint \<lparr>CreatedAt = 1700000000000000000\<rparr>
             containerd_spec)"
    by (simp add: containerd_manager)
  from r2 C10_status_error_discarded [of unknown_spec unknown_checkpoint "''/cp''"
      None "Some (Err ''open status.dump: no such file or directory'')" podman_config]
  have s2: "switch_manager unknown_checkpoint ''/cp'' podman_config unknown_spec
     = Inl (Err ''unknown container manager found: docker'')"
    by (simp add: unknown_manager)
  from r1 s1 r2 s2 show ?thesis by blast
qed

end
